theory Spec2Isabelle
  imports Main
begin

section \<open>Python strings\<close>

text \<open>
  A Python \<open>str\<close> is modelled as a \<open>string\<close> whose characters each stand for one code
  point (so \<open>length\<close> is Python's \<open>len\<close>); the code points covered are those below 256.
  \<open>isspace\<close> is \<open>str.isspace\<close> on one character for that range: U+0009..U+000D,
  U+001C..U+0020, U+0085 and U+00A0.
\<close>

definition isspace :: "char \<Rightarrow> bool" where
  "isspace c =
     (let n = (of_char c :: nat)
      in (9 \<le> n \<and> n \<le> 13) \<or> (28 \<le> n \<and> n \<le> 32) \<or> n = 133 \<or> n = 160)"

text \<open>\<open>s.strip()\<close>: leading and trailing whitespace removed.\<close>

definition strip :: "string \<Rightarrow> string" where
  "strip s = rev (dropWhile isspace (rev (dropWhile isspace s)))"

text \<open>
  \<open>s[:n]\<close> for a Python \<open>int\<close> \<open>n\<close>: the first \<open>n\<close> items when \<open>n\<close> is not negative,
  all but the last \<open>-n\<close> items otherwise.
\<close>

definition slice_to :: "int \<Rightarrow> 'a list \<Rightarrow> 'a list" where
  "slice_to n xs =
     (if 0 \<le> n then take (nat n) xs else take (nat (int (length xs) + n)) xs)"

text \<open>The accented letters of the messages of \<open>server.py\<close>.\<close>

definition o_acute :: string where
  "o_acute = [CHR 0xF3]"

definition i_acute :: string where
  "i_acute = [CHR 0xED]"

definition apostrophe :: string where
  "apostrophe = [CHR 0x27]"

section \<open>Exceptions and HTTP errors\<close>

text \<open>
  The exceptions raised inside \<open>server.py\<close>, each with its message, and the
  \<open>HTTPException\<close> (status code, detail) a route handler answers with. Only subclasses
  of \<open>Exception\<close> are modelled: they are what \<open>except Exception\<close> catches.
\<close>

datatype exn =
    RuntimeError string
  | ValueError string
  | TypeError string
  | KeyError string

text \<open>
  \<open>str(e)\<close>. The text of a \<open>KeyError\<close> is the \<open>repr\<close> of its key, written here for keys
  without quotes or escapes (the agent ids of the per-agent endpoints are such keys).
\<close>

fun str_exn :: "exn \<Rightarrow> string" where
  "str_exn (RuntimeError m) = m"
| "str_exn (ValueError m) = m"
| "str_exn (TypeError m) = m"
| "str_exn (KeyError k) = apostrophe @ k @ apostrophe"

datatype http_error = HTTPException int string

section \<open>Data of the external agent framework\<close>

text \<open>
  \<open>Part\<close>, \<open>Content\<close> and the runner's events come from the agent framework. Every attribute
  the server reads is optional there, so each is an \<open>option\<close> (\<open>None\<close> is Python's).
\<close>

record part =
  part_text :: "string option"

record content =
  parts :: "part list option"
  role :: "string option"

record event =
  event_content :: "content option"

text \<open>The session object of the framework: the server reads \<open>session.id\<close> and \<open>session.user_id\<close>.\<close>

record adk_session =
  adk_id :: string
  user_id :: string

text \<open>One turn of the history the framework returns: \<open>user_message\<close> and \<open>model_message\<close>.\<close>

record turn =
  user_message :: "content option"
  model_message :: "content option"

text \<open>
  What one call of \<open>runner.run\<close> does when the server iterates it: it yields the events
  \<open>emitted\<close>, then stops normally (\<open>fault = None\<close>) or raises (\<open>fault = Some m\<close>, \<open>m\<close> the
  \<open>str\<close> of the exception).
\<close>

record run_outcome =
  emitted :: "event list"
  fault :: "string option"

text \<open>The arguments of one call of \<open>runner.run\<close>: \<open>user_id\<close>, \<open>session_id\<close>, \<open>new_message\<close>.\<close>

type_synonym run_call = "string \<times> string \<times> content"

section \<open>Configuration, registry and the outside world\<close>

record agent_meta =
  nombre :: string
  descripcion :: string
  color :: string
  emoji :: "string option"

text \<open>
  \<open>config.py\<close> and \<open>DATAR.datar\<close> are not part of the sources at hand, so their constants
  are parameters: the two length limits, the name of the root agent and the registry
  \<open>AGENTS_METADATA\<close>. The outside world is a parameter too:
  \<^item> \<open>now n\<close> is the text of the \<open>n\<close>-th \<open>datetime.now().isoformat()\<close>;
  \<^item> \<open>uuid4 n\<close> is the text of the \<open>n\<close>-th \<open>uuid.uuid4()\<close>;
  \<^item> \<open>create_session n\<close> is the outcome of the \<open>n\<close>-th \<open>session_service.create_session\<close>:
    the \<open>str\<close> of the exception raised, or the new session;
  \<^item> \<open>runner_run calls\<close> is the outcome of \<open>runner.run\<close> after the calls \<open>calls\<close> (latest
    first, the current one at the head): the runner keeps the conversation, so its answer
    may depend on every earlier call;
  \<^item> \<open>get_history n user_id session_id\<close> is the outcome of the \<open>n\<close>-th
    \<open>session_service.get_history\<close>: the \<open>str\<close> of the exception raised, or the turns of the
    history (\<open>None\<close> for a falsy history or one without \<open>turns\<close>).
\<close>

record env =
  MAX_MESSAGE_LENGTH :: int
  MAX_RESPONSE_LENGTH :: int
  root_agent_name :: string
  AGENTS_METADATA :: "string \<rightharpoonup> agent_meta"
  now :: "nat \<Rightarrow> string"
  uuid4 :: "nat \<Rightarrow> string"
  create_session :: "nat \<Rightarrow> string + adk_session"
  runner_run :: "run_call list \<Rightarrow> run_outcome"
  get_history :: "nat \<Rightarrow> string \<Rightarrow> string \<Rightarrow> string + turn list option"

section \<open>The session store\<close>

record metadata =
  created_at :: string
  last_activity :: string
  message_count :: int

text \<open>
  The two module-level dictionaries \<open>sessions_store\<close> and \<open>sessions_metadata\<close>, and how far
  the outside world has been consulted: the number of clock readings, of ids minted, of
  sessions requested and of histories requested, and the calls made to the runner.
\<close>

record state =
  sessions_store :: "string \<rightharpoonup> adk_session"
  sessions_metadata :: "string \<rightharpoonup> metadata"
  clock_reads :: nat
  uuid_calls :: nat
  create_calls :: nat
  runner_log :: "run_call list"
  history_calls :: nat

text \<open>\<open>datetime.now().isoformat()\<close>\<close>

definition now_isoformat :: "env \<Rightarrow> state \<Rightarrow> string \<times> state" where
  "now_isoformat env st = (now env (clock_reads st), st\<lparr>clock_reads := Suc (clock_reads st)\<rparr>)"

text \<open>
  \<open>get_or_create_session\<close> (lines 135-167). A session id that is not in \<open>sessions_store\<close>
  gets a new framework session and a metadata record; a failure of \<open>create_session\<close> is
  raised again as a \<open>RuntimeError\<close>. Then the last activity of the session is stamped.
\<close>

definition get_or_create_session ::
  "env \<Rightarrow> string \<Rightarrow> state \<Rightarrow> (exn + adk_session) \<times> state" where
  "get_or_create_session env session_id st =
     (let created =
        (case sessions_store st session_id of
           Some _ \<Rightarrow> Inr st
         | None \<Rightarrow>
            (let st0 = st\<lparr>create_calls := Suc (create_calls st)\<rparr>
             in case create_session env (create_calls st) of
                  Inl e \<Rightarrow> Inl (RuntimeError (''Error al crear sesi'' @ o_acute @ ''n: '' @ e), st0)
                | Inr session \<Rightarrow>
                   (let st1 = st0\<lparr>sessions_store := (sessions_store st0)(session_id \<mapsto> session)\<rparr>;
                        (t1, st2) = now_isoformat env st1;
                        (t2, st3) = now_isoformat env st2
                    in Inr (st3\<lparr>sessions_metadata := (sessions_metadata st3)(session_id \<mapsto>
                              \<lparr>created_at = t1, last_activity = t2, message_count = 0\<rparr>)\<rparr>))))
      in case created of
           Inl (e, st') \<Rightarrow> (Inl e, st')
         | Inr st' \<Rightarrow>
            (let st'' =
               (case sessions_metadata st' session_id of
                  None \<Rightarrow> st'
                | Some m \<Rightarrow>
                   (let (t, st3) = now_isoformat env st'
                    in st3\<lparr>sessions_metadata :=
                             (sessions_metadata st3)(session_id \<mapsto> m\<lparr>last_activity := t\<rparr>)\<rparr>))
             in case sessions_store st'' session_id of
                  None \<Rightarrow> (Inl (KeyError session_id), st'')
                | Some session \<Rightarrow> (Inr session, st'')))"

section \<open>Running the agent\<close>

text \<open>
  The body of the loop over the events (lines 205-208): an event without content adds
  nothing; a content whose \<open>parts\<close> is \<open>None\<close> cannot be iterated, which raises a
  \<open>TypeError\<close>; otherwise every part with a non-empty text is appended.
\<close>

definition event_text :: "event \<Rightarrow> string \<Rightarrow> string + string" where
  "event_text ev respuesta_texto =
     (case event_content ev of
        None \<Rightarrow> Inr respuesta_texto
      | Some c \<Rightarrow>
         (case parts c of
            None \<Rightarrow> Inl (apostrophe @ ''NoneType'' @ apostrophe @ '' object is not iterable'')
          | Some ps \<Rightarrow>
             Inr (foldl (\<lambda>acc p. case part_text p of
                                    None \<Rightarrow> acc
                                  | Some t \<Rightarrow> if t = [] then acc else acc @ t)
                        respuesta_texto ps)))"

text \<open>
  The loop \<open>for event in runner.run(...)\<close> inside its \<open>try\<close> (lines 198-211): the result is
  the text collected, or the \<open>str\<close> of the exception that ended the loop.
\<close>

fun run_events :: "event list \<Rightarrow> string option \<Rightarrow> string \<Rightarrow> string + string" where
  "run_events [] flt respuesta_texto =
     (case flt of None \<Rightarrow> Inr respuesta_texto | Some e \<Rightarrow> Inl e)"
| "run_events (ev # evs) flt respuesta_texto =
     (case event_text ev respuesta_texto of
        Inl e \<Rightarrow> Inl e
      | Inr respuesta_texto' \<Rightarrow> run_events evs flt respuesta_texto')"

text \<open>The default answer of line 220.\<close>

definition fallback_text :: "env \<Rightarrow> string" where
  "fallback_text env =
     ''['' @ root_agent_name env @ ''] proces'' @ o_acute @ '' tu mensaje, pero no gener''
       @ o_acute @ '' una respuesta de texto.''"

text \<open>
  The message handed to the runner (lines 185-191): with an agent id that is truthy and
  in the registry, the message is prefixed with the agent's name.
\<close>

definition mensaje_completo :: "env \<Rightarrow> string \<Rightarrow> string option \<Rightarrow> string" where
  "mensaje_completo env message agent_id =
     (case agent_id of
        None \<Rightarrow> message
      | Some a \<Rightarrow>
         if a = [] then message
         else (case AGENTS_METADATA env a of
                 None \<Rightarrow> message
               | Some agent_meta \<Rightarrow> ''[Dirigido a '' @ nombre agent_meta @ '']: '' @ message))"

text \<open>The content built at line 194: one part with the text, for the role \<open>user\<close>.\<close>

definition user_content :: "string \<Rightarrow> content" where
  "user_content t = \<lparr>parts = Some [\<lparr>part_text = Some t\<rparr>], role = Some ''user''\<rparr>"

text \<open>
  \<open>send_message_to_agent\<close> (lines 169-222). The \<open>print\<close> calls of the source write to the
  log only and are left out.
\<close>

definition send_message_to_agent ::
  "env \<Rightarrow> string \<Rightarrow> string \<Rightarrow> string option \<Rightarrow> state \<Rightarrow> (exn + string) \<times> state" where
  "send_message_to_agent env session_id message agent_id st =
     (case get_or_create_session env session_id st of
        (Inl e, st1) \<Rightarrow> (Inl e, st1)
      | (Inr session, st1) \<Rightarrow>
         (let new_message = user_content (mensaje_completo env message agent_id);
              st2 = st1\<lparr>runner_log := (user_id session, adk_id session, new_message) # runner_log st1\<rparr>;
              outcome = runner_run env (runner_log st2)
          in case run_events (emitted outcome) (fault outcome) [] of
               Inl e \<Rightarrow> (Inl (RuntimeError (''Error al ejecutar el agente: '' @ e)), st2)
             | Inr respuesta_texto \<Rightarrow>
                (let st3 =
                   (case sessions_metadata st2 session_id of
                      None \<Rightarrow> st2
                    | Some m \<Rightarrow>
                       (let (t, st') = now_isoformat env st2
                        in st'\<lparr>sessions_metadata := (sessions_metadata st')(session_id \<mapsto>
                                 m\<lparr>message_count := message_count m + 1, last_activity := t\<rparr>)\<rparr>));
                     respuesta_texto' =
                       (if respuesta_texto = [] \<or> strip respuesta_texto = []
                        then fallback_text env else respuesta_texto)
                 in (Inr (strip respuesta_texto'), st3))))"

section \<open>The route handlers\<close>

text \<open>\<open>str(n)\<close> for a Python \<open>int\<close>: the decimal digits, with a minus sign when negative.\<close>

fun str_nat :: "nat \<Rightarrow> string" where
  "str_nat n =
     (if n < 10 then [char_of (48 + n)] else str_nat (n div 10) @ [char_of (48 + n mod 10)])"

definition str_int :: "int \<Rightarrow> string" where
  "str_int i = (if i < 0 then ''-'' @ str_nat (nat (- i)) else str_nat (nat i))"

record ChatRequest =
  message :: string
  session_id :: "string option"
  agent_id :: "string option"

text \<open>
  A field name can belong to one record only, so the fields that several models of the
  source share carry the name of their model: \<open>ChatResponse.session_id\<close> is
  \<open>response_session_id\<close>, the \<open>message\<close> of \<open>SimpleMessageRequest\<close> is \<open>simple_message\<close>, the
  fields of \<open>AgentResponse\<close> are \<open>agent_response\<close>, \<open>agent_response_name\<close> and
  \<open>agent_response_id\<close>, and those of \<open>SessionHistoryResponse\<close> are \<open>history_session_id\<close>,
  \<open>messages\<close>, \<open>history_created_at\<close> and \<open>history_message_count\<close>.
\<close>

record ChatResponse =
  response :: string
  agent_name :: string
  response_session_id :: string
  timestamp :: string

text \<open>\<open>str(uuid.uuid4())\<close>\<close>

definition new_uuid :: "env \<Rightarrow> state \<Rightarrow> string \<times> state" where
  "new_uuid env st = (uuid4 env (uuid_calls st), st\<lparr>uuid_calls := Suc (uuid_calls st)\<rparr>)"

text \<open>
  \<open>chat_with_agent\<close>, the handler of \<open>POST /api/chat\<close> (lines 271-320). The two checks of
  the message come first and answer 400; everything after them runs inside the \<open>try\<close>
  whose handler answers 500 with the text of the exception.
\<close>

definition chat_with_agent ::
  "env \<Rightarrow> ChatRequest \<Rightarrow> state \<Rightarrow> (http_error + ChatResponse) \<times> state" where
  "chat_with_agent env request st =
     (if message request = [] \<or> strip (message request) = []
      then (Inl (HTTPException 400 (''El mensaje no puede estar vac'' @ i_acute @ ''o'')), st)
      else if int (length (message request)) > MAX_MESSAGE_LENGTH env
      then (Inl (HTTPException 400 (''El mensaje no puede exceder ''
                   @ str_int (MAX_MESSAGE_LENGTH env) @ '' caracteres'')), st)
      else
        (let (session_id, st1) =
               (case session_id request of
                  None \<Rightarrow> new_uuid env st
                | Some s \<Rightarrow> if s = [] then new_uuid env st else (s, st));
             (timestamp, st2) = now_isoformat env st1
         in case send_message_to_agent env session_id (message request) (agent_id request) st2 of
              (Inl e, st3) \<Rightarrow>
                (Inl (HTTPException 500 (''Error al generar respuesta: '' @ str_exn e)), st3)
            | (Inr response_text, st3) \<Rightarrow>
                if response_text = []
                then (Inl (HTTPException 500 (''Error al generar respuesta: ''
                             @ str_exn (ValueError (''La respuesta del agente lleg'' @ o_acute
                                                    @ '' vac'' @ i_acute @ ''a.'')))), st3)
                else
                  (let response_text' = slice_to (MAX_RESPONSE_LENGTH env) response_text;
                       agent_name =
                         (case agent_id request of
                            None \<Rightarrow> root_agent_name env
                          | Some a \<Rightarrow>
                             if a = [] then root_agent_name env
                             else (case AGENTS_METADATA env a of
                                     None \<Rightarrow> root_agent_name env
                                   | Some agent_meta \<Rightarrow> nombre agent_meta));
                       (t, st4) = now_isoformat env st3
                   in (Inr \<lparr>response = response_text', agent_name = agent_name,
                            response_session_id = session_id, timestamp = t\<rparr>, st4))))"

record SimpleMessageRequest =
  simple_message :: string

record AgentResponse =
  agent_response :: string
  agent_response_name :: string
  agent_response_id :: string

text \<open>
  The seven per-agent handlers (lines 434-607) have one body and differ in the agent id
  only; \<open>chat_agent\<close> is that body, with the agent id \<open>aid\<close> as a parameter.
  \<open>AGENTS_METADATA[agent_id]\<close> raises a \<open>KeyError\<close> for an id that is not in the registry,
  inside the \<open>try\<close>.
\<close>

definition chat_agent ::
  "env \<Rightarrow> string \<Rightarrow> SimpleMessageRequest \<Rightarrow> state \<Rightarrow> (http_error + AgentResponse) \<times> state" where
  "chat_agent env aid request st =
     (let (session_id, st1) = new_uuid env st
      in case send_message_to_agent env session_id (simple_message request)
                (Some aid) st1 of
           (Inl e, st2) \<Rightarrow> (Inl (HTTPException 500 (''Error: '' @ str_exn e)), st2)
         | (Inr response_text, st2) \<Rightarrow>
            (case AGENTS_METADATA env aid of
               None \<Rightarrow> (Inl (HTTPException 500 (''Error: '' @ str_exn (KeyError aid))), st2)
             | Some agent_meta \<Rightarrow>
                (Inr \<lparr>agent_response = response_text, agent_response_name = nombre agent_meta,
                      agent_response_id = aid\<rparr>, st2)))"

definition chat_gente_montana ::
  "env \<Rightarrow> SimpleMessageRequest \<Rightarrow> state \<Rightarrow> (http_error + AgentResponse) \<times> state" where
  "chat_gente_montana env = chat_agent env ''gente_montana''"

definition chat_gente_pasto ::
  "env \<Rightarrow> SimpleMessageRequest \<Rightarrow> state \<Rightarrow> (http_error + AgentResponse) \<times> state" where
  "chat_gente_pasto env = chat_agent env ''gente_pasto''"

definition chat_gente_intuitiva ::
  "env \<Rightarrow> SimpleMessageRequest \<Rightarrow> state \<Rightarrow> (http_error + AgentResponse) \<times> state" where
  "chat_gente_intuitiva env = chat_agent env ''gente_intuitiva''"

definition chat_gente_interpretativa ::
  "env \<Rightarrow> SimpleMessageRequest \<Rightarrow> state \<Rightarrow> (http_error + AgentResponse) \<times> state" where
  "chat_gente_interpretativa env = chat_agent env ''gente_interpretativa''"

definition chat_gente_bosque ::
  "env \<Rightarrow> SimpleMessageRequest \<Rightarrow> state \<Rightarrow> (http_error + AgentResponse) \<times> state" where
  "chat_gente_bosque env = chat_agent env ''gente_bosque''"

definition chat_gente_sonora ::
  "env \<Rightarrow> SimpleMessageRequest \<Rightarrow> state \<Rightarrow> (http_error + AgentResponse) \<times> state" where
  "chat_gente_sonora env = chat_agent env ''gente_sonora''"

definition chat_gente_horaculo ::
  "env \<Rightarrow> SimpleMessageRequest \<Rightarrow> state \<Rightarrow> (http_error + AgentResponse) \<times> state" where
  "chat_gente_horaculo env = chat_agent env ''gente_horaculo''"

text \<open>
  The routes of the seven handlers, \<open>POST /api/chat/<agent id>\<close>: each agent id with its
  handler.
\<close>

definition agent_endpoints ::
  "(string \<times> (env \<Rightarrow> SimpleMessageRequest \<Rightarrow> state \<Rightarrow> (http_error + AgentResponse) \<times> state)) list" where
  "agent_endpoints =
     [(''gente_montana'', chat_gente_montana),
      (''gente_pasto'', chat_gente_pasto),
      (''gente_intuitiva'', chat_gente_intuitiva),
      (''gente_interpretativa'', chat_gente_interpretativa),
      (''gente_bosque'', chat_gente_bosque),
      (''gente_sonora'', chat_gente_sonora),
      (''gente_horaculo'', chat_gente_horaculo)]"

text \<open>One entry of \<open>messages\<close> in the answer of \<open>GET /api/sessions/{session_id}\<close>.\<close>

record history_message =
  msg_role :: string
  msg_content :: "string option"
  msg_timestamp :: string

record SessionHistoryResponse =
  history_session_id :: string
  messages :: "history_message list"
  history_created_at :: string
  history_message_count :: int

text \<open>
  The text of a message of the history (lines 366 and 372): that of its first part, or
  the empty text when it has no part.
\<close>

definition first_part_text :: "content \<Rightarrow> string option" where
  "first_part_text c =
     (case parts c of
        None \<Rightarrow> Some []
      | Some [] \<Rightarrow> Some []
      | Some (p # _) \<Rightarrow> part_text p)"

text \<open>The messages one turn contributes (lines 363-374); \<open>ts\<close> is \<open>metadata.get("last_activity", "")\<close>.\<close>

definition turn_messages :: "string \<Rightarrow> turn \<Rightarrow> history_message list" where
  "turn_messages ts t =
     (case user_message t of
        None \<Rightarrow> []
      | Some c \<Rightarrow> [\<lparr>msg_role = ''user'', msg_content = first_part_text c, msg_timestamp = ts\<rparr>])
     @ (case model_message t of
          None \<Rightarrow> []
        | Some c \<Rightarrow> [\<lparr>msg_role = ''assistant'', msg_content = first_part_text c, msg_timestamp = ts\<rparr>])"

definition empty_history :: "string \<Rightarrow> SessionHistoryResponse" where
  "empty_history sid =
     \<lparr>history_session_id = sid, messages = [], history_created_at = [],
      history_message_count = 0\<rparr>"

text \<open>
  \<open>get_session_history\<close>, the handler of \<open>GET /api/sessions/{session_id}\<close> (lines 335-389).
  An exception of \<open>get_history\<close> is caught by the handler's \<open>except Exception\<close>.
\<close>

definition get_session_history ::
  "env \<Rightarrow> string \<Rightarrow> state \<Rightarrow> (http_error + SessionHistoryResponse) \<times> state" where
  "get_session_history env sid st =
     (case sessions_store st sid of
        None \<Rightarrow> (Inr (empty_history sid), st)
      | Some session \<Rightarrow>
         (let metadata = sessions_metadata st sid;
              st1 = st\<lparr>history_calls := Suc (history_calls st)\<rparr>
          in case get_history env (history_calls st) (user_id session) (adk_id session) of
               Inl e \<Rightarrow> (Inr (empty_history sid), st1)
             | Inr history \<Rightarrow>
                (let ts = (case metadata of None \<Rightarrow> [] | Some m \<Rightarrow> last_activity m);
                     messages = (case history of
                                   None \<Rightarrow> []
                                 | Some turns \<Rightarrow> concat (map (turn_messages ts) turns))
                 in (Inr \<lparr>history_session_id = sid, messages = messages,
                          history_created_at = (case metadata of
                                                  None \<Rightarrow> []
                                                | Some m \<Rightarrow> created_at m),
                          history_message_count = int (length messages)\<rparr>, st1))))"

text \<open>
  \<open>delete_session\<close>, the handler of \<open>DELETE /api/sessions/{session_id}\<close> (lines 391-404):
  the answer is its message. The path parameter \<open>session_id\<close> is \<open>sid\<close> here and in
  \<open>get_session_history\<close>.
\<close>

definition delete_session :: "string \<Rightarrow> state \<Rightarrow> string \<times> state" where
  "delete_session sid st =
     (let (deleted, st1) =
            (if sessions_store st sid \<noteq> None
             then (True, st\<lparr>sessions_store := (sessions_store st)(sid := None)\<rparr>)
             else (False, st));
          (deleted', st2) =
            (if sessions_metadata st1 sid \<noteq> None
             then (True, st1\<lparr>sessions_metadata := (sessions_metadata st1)(sid := None)\<rparr>)
             else (deleted, st1))
      in (if deleted'
          then ''Sesi'' @ o_acute @ ''n '' @ sid @ '' eliminada exitosamente''
          else ''Sesi'' @ o_acute @ ''n '' @ sid @ '' no encontrada'', st2))"

section \<open>Reachable states\<close>

text \<open>
  The server starts with both dictionaries empty, and its state changes only through the
  handlers above, one request after the other. The handlers that only read
  (\<open>list_sessions\<close>, \<open>list_agents\<close>, \<open>select_agent\<close>, \<open>health_check\<close>) leave the state as it is.
\<close>

inductive reachable :: "env \<Rightarrow> state \<Rightarrow> bool" for env :: env where
  start: "sessions_store st = Map.empty \<Longrightarrow> sessions_metadata st = Map.empty \<Longrightarrow> reachable env st"
| chat: "reachable env st \<Longrightarrow> reachable env (snd (chat_with_agent env request st))"
| agent: "reachable env st \<Longrightarrow>
          aid \<in> {''gente_montana'', ''gente_pasto'', ''gente_intuitiva'',
                      ''gente_interpretativa'', ''gente_bosque'', ''gente_sonora'',
                      ''gente_horaculo''} \<Longrightarrow>
          reachable env (snd (chat_agent env aid simple_request st))"
| history: "reachable env st \<Longrightarrow> reachable env (snd (get_session_history env sid st))"
| delete: "reachable env st \<Longrightarrow> reachable env (snd (delete_session sid st))"

section \<open>Notions of the specification\<close>

text \<open>
  The text fragments of a run, in the order of emission: the texts of the parts of the
  events that have a content with parts.
\<close>

definition text_fragments :: "event list \<Rightarrow> string list" where
  "text_fragments evs =
     concat (map (\<lambda>ev. case event_content ev of
                          None \<Rightarrow> []
                        | Some c \<Rightarrow>
                           (case parts c of
                              None \<Rightarrow> []
                            | Some ps \<Rightarrow>
                               concat (map (\<lambda>p. case part_text p of None \<Rightarrow> [] | Some t \<Rightarrow> [t]) ps)))
                 evs)"

text \<open>
  What \<open>chat_with_agent\<close> hands to \<open>send_message_to_agent\<close> for a message that passed its two
  checks: the session id of line 287 (that of the request, or a new one when the request
  has none or an empty one), and the state after that line and the clock reading of
  line 288.
\<close>

definition chat_session_id :: "env \<Rightarrow> ChatRequest \<Rightarrow> state \<Rightarrow> string" where
  "chat_session_id env request st =
     (case session_id request of
        None \<Rightarrow> uuid4 env (uuid_calls st)
      | Some s \<Rightarrow> if s = [] then uuid4 env (uuid_calls st) else s)"

definition chat_send_state :: "ChatRequest \<Rightarrow> state \<Rightarrow> state" where
  "chat_send_state request st =
     (case session_id request of
        None \<Rightarrow> st\<lparr>uuid_calls := Suc (uuid_calls st), clock_reads := Suc (clock_reads st)\<rparr>
      | Some s \<Rightarrow> if s = [] then st\<lparr>uuid_calls := Suc (uuid_calls st), clock_reads := Suc (clock_reads st)\<rparr>
                  else st\<lparr>clock_reads := Suc (clock_reads st)\<rparr>)"

text \<open>
  The aggregated response of the run made last before the state \<open>st'\<close>: the fragments
  concatenated, the fallback text in their place when they are empty or only whitespace,
  and the result stripped as \<open>send_message_to_agent\<close> returns it.
\<close>

definition aggregated_response :: "env \<Rightarrow> state \<Rightarrow> string" where
  "aggregated_response env st' =
     (let c = concat (text_fragments (emitted (runner_run env (runner_log st'))))
      in strip (if strip c = [] then fallback_text env else c))"

text \<open>
  Two states that agree on everything but the clock: the same sessions, the same message
  count for every session, the same calls made to the outside world; the clock readings
  and the timestamps taken from them may differ.
\<close>

definition same_but_clock :: "state \<Rightarrow> state \<Rightarrow> bool" where
  "same_but_clock s1 s2 \<longleftrightarrow>
     sessions_store s1 = sessions_store s2
     \<and> map_option message_count \<circ> sessions_metadata s1
         = map_option message_count \<circ> sessions_metadata s2
     \<and> uuid_calls s1 = uuid_calls s2
     \<and> create_calls s1 = create_calls s2
     \<and> runner_log s1 = runner_log s2
     \<and> history_calls s1 = history_calls s2"

section \<open>Concrete inputs\<close>

text \<open>
  A small configuration on which the model is evaluated: one agent in the registry,
  messages of at most 8 characters, responses of at most 4, a runner that emits two
  events, and a history of one turn.
\<close>

definition ex_pasto :: agent_meta where
  "ex_pasto = \<lparr>nombre = ''Gente Pasto'', descripcion = ''vegetacion'', color = ''green'', emoji = None\<rparr>"

definition ex_event :: "string \<Rightarrow> event" where
  "ex_event t = \<lparr>event_content = Some \<lparr>parts = Some [\<lparr>part_text = Some t\<rparr>], role = Some ''model''\<rparr>\<rparr>"

definition ex_turn :: turn where
  "ex_turn = \<lparr>user_message = Some \<lparr>parts = Some [\<lparr>part_text = Some ''hola''\<rparr>], role = Some ''user''\<rparr>,
              model_message = Some \<lparr>parts = Some [\<lparr>part_text = Some ''buenas''\<rparr>], role = Some ''model''\<rparr>\<rparr>"

definition ex_env :: env where
  "ex_env = \<lparr>MAX_MESSAGE_LENGTH = 8, MAX_RESPONSE_LENGTH = 4, root_agent_name = ''root_agent'',
             AGENTS_METADATA = [''gente_pasto'' \<mapsto> ex_pasto],
             now = (\<lambda>n. replicate n (CHR ''t'')),
             uuid4 = (\<lambda>n. ''uuid'' @ replicate n (CHR ''+'')),
             create_session = (\<lambda>n. Inr \<lparr>adk_id = replicate n (CHR ''a''), user_id = ''default_user''\<rparr>),
             runner_run = (\<lambda>calls. \<lparr>emitted = [ex_event '' buenas '', ex_event ''tardes ''], fault = None\<rparr>),
             get_history = (\<lambda>n u s. Inr (Some [ex_turn]))\<rparr>"

definition ex_state :: state where
  "ex_state = \<lparr>sessions_store = Map.empty, sessions_metadata = Map.empty, clock_reads = 0,
               uuid_calls = 0, create_calls = 0, runner_log = [], history_calls = 0\<rparr>"

text \<open>A first request, the state it leaves, and a world whose history retrieval raises.\<close>

definition ex_request :: ChatRequest where
  "ex_request = \<lparr>message = ''hola'', session_id = Some ''s1'', agent_id = Some ''gente_pasto''\<rparr>"

definition ex_state1 :: state where
  "ex_state1 = snd (chat_with_agent ex_env ex_request ex_state)"

definition ex_env_no_history :: env where
  "ex_env_no_history = ex_env\<lparr>get_history := (\<lambda>n u s. Inl ''no attribute get_history'')\<rparr>"

text \<open>
  Two more worlds: a runner that emits only whitespace, and one that answers its first
  call as before and raises at every later call.
\<close>

definition ex_env_blank :: env where
  "ex_env_blank = ex_env\<lparr>runner_run := (\<lambda>calls. \<lparr>emitted = [ex_event ''  ''], fault = None\<rparr>)\<rparr>"

definition ex_env_fault :: env where
  "ex_env_fault = ex_env\<lparr>runner_run := (\<lambda>calls.
     if length calls \<le> 1 then runner_run ex_env calls
     else \<lparr>emitted = [ex_event ''buenas''], fault = Some ''boom''\<rparr>)\<rparr>"


text \<open>The requests that compare a per-agent handler with \<open>chat_with_agent\<close>.\<close>

definition ex_simple_request :: SimpleMessageRequest where
  "ex_simple_request = \<lparr>simple_message = ''hola''\<rparr>"

definition ex_request_pasto :: "string \<Rightarrow> ChatRequest" where
  "ex_request_pasto msg = \<lparr>message = msg, session_id = None, agent_id = Some ''gente_pasto''\<rparr>"

text \<open>A request for a session id that is new in \<open>ex_state1\<close>.\<close>

definition ex_request_new :: ChatRequest where
  "ex_request_new = \<lparr>message = ''hola'', session_id = Some ''s2'', agent_id = None\<rparr>"

section \<open>Auxiliary facts\<close>

declare str_nat.simps [simp del]

subsection \<open>Stripping\<close>

lemma strip_eq_Nil_iff: "strip s = [] \<longleftrightarrow> (\<forall>c\<in>set s. isspace c)"
proof -
  have "strip s = [] \<longleftrightarrow> (\<forall>c\<in>set (dropWhile isspace s). isspace c)"
    by (simp add: strip_def dropWhile_eq_Nil_conv)
  also have "\<dots> \<longleftrightarrow> dropWhile isspace s = []"
  proof
    assume a: "\<forall>c\<in>set (dropWhile isspace s). isspace c"
    show "dropWhile isspace s = []"
    proof (rule ccontr)
      assume n: "dropWhile isspace s \<noteq> []"
      then have "\<not> isspace (hd (dropWhile isspace s))" by (rule hd_dropWhile)
      moreover have "hd (dropWhile isspace s) \<in> set (dropWhile isspace s)" using n by simp
      ultimately show False using a by blast
    qed
  next
    assume "dropWhile isspace s = []"
    then show "\<forall>c\<in>set (dropWhile isspace s). isspace c" by (simp only: set_simps ball_empty)
  qed
  also have "\<dots> \<longleftrightarrow> (\<forall>c\<in>set s. isspace c)"
    by (simp add: dropWhile_eq_Nil_conv)
  finally show ?thesis .
qed

lemma strip_last: "strip s \<noteq> [] \<Longrightarrow> \<not> isspace (last (strip s))"
proof -
  assume n: "strip s \<noteq> []"
  let ?d = "dropWhile isspace (rev (dropWhile isspace s))"
  from n have d: "?d \<noteq> []" by (simp add: strip_def)
  then have "\<not> isspace (hd ?d)" by (rule hd_dropWhile)
  moreover have "last (strip s) = hd ?d" using d by (simp add: strip_def last_rev)
  ultimately show ?thesis by simp
qed

lemma rev_dropWhile_rev_prefix: "\<exists>zs. xs = rev (dropWhile P (rev xs)) @ zs"
proof -
  have "rev (takeWhile P (rev xs) @ dropWhile P (rev xs)) = rev (rev xs)"
    by (simp only: takeWhile_dropWhile_id)
  then have "rev (dropWhile P (rev xs)) @ rev (takeWhile P (rev xs)) = xs"
    by (simp only: rev_append rev_rev_ident)
  then show ?thesis by metis
qed

lemma strip_hd: "strip s \<noteq> [] \<Longrightarrow> \<not> isspace (hd (strip s))"
proof -
  assume n: "strip s \<noteq> []"
  let ?d = "dropWhile isspace s"
  obtain zs where z: "?d = strip s @ zs"
    using rev_dropWhile_rev_prefix [of ?d isspace] by (auto simp: strip_def)
  with n have dn: "?d \<noteq> []" by auto
  then have "\<not> isspace (hd ?d)" by (rule hd_dropWhile)
  moreover have "hd ?d = hd (strip s)" using z n by (metis hd_append2)
  ultimately show ?thesis by simp
qed

lemma strip_id: "s \<noteq> [] \<Longrightarrow> \<not> isspace (hd s) \<Longrightarrow> \<not> isspace (last s) \<Longrightarrow> strip s = s"
proof -
  assume s: "s \<noteq> []" and h: "\<not> isspace (hd s)" and l: "\<not> isspace (last s)"
  from s h have d: "dropWhile isspace s = s" by (cases s) auto
  from s l have "dropWhile isspace (rev s) = rev s" by (cases "rev s") (auto simp: last_rev hd_rev)
  with d show ?thesis by (simp add: strip_def)
qed

lemma fallback_strip: "strip (fallback_text env) = fallback_text env"
  by (rule strip_id) (simp_all add: fallback_text_def isspace_def)

lemma fallback_not_empty: "fallback_text env \<noteq> []"
  by (simp add: fallback_text_def)

subsection \<open>Obtaining a session\<close>

lemma goc_existing:
  "sessions_store st sid = Some s \<Longrightarrow>
   get_or_create_session env sid st =
     (Inr s, case sessions_metadata st sid of
               None \<Rightarrow> st
             | Some m \<Rightarrow> st\<lparr>sessions_metadata := (sessions_metadata st)(sid \<mapsto> m\<lparr>last_activity := now env (clock_reads st)\<rparr>),
                             clock_reads := Suc (clock_reads st)\<rparr>)"
  by (simp add: get_or_create_session_def now_isoformat_def split: option.splits)

lemma goc_fail:
  "sessions_store st sid = None \<Longrightarrow> create_session env (create_calls st) = Inl e \<Longrightarrow>
   get_or_create_session env sid st =
     (Inl (RuntimeError (''Error al crear sesi'' @ o_acute @ ''n: '' @ e)),
      st\<lparr>create_calls := Suc (create_calls st)\<rparr>)"
  by (simp add: get_or_create_session_def)

lemma goc_created:
  "sessions_store st sid = None \<Longrightarrow> create_session env (create_calls st) = Inr s \<Longrightarrow>
   get_or_create_session env sid st =
     (Inr s, st\<lparr>sessions_store := (sessions_store st)(sid \<mapsto> s),
                sessions_metadata := (sessions_metadata st)(sid \<mapsto>
                   \<lparr>created_at = now env (clock_reads st),
                    last_activity = now env (Suc (Suc (clock_reads st))),
                    message_count = 0\<rparr>),
                clock_reads := Suc (Suc (Suc (clock_reads st))),
                create_calls := Suc (create_calls st)\<rparr>)"
  by (simp add: get_or_create_session_def now_isoformat_def)

lemma goc_cases [case_names existing fail created]:
  obtains
    (existing) s where "sessions_store st sid = Some s"
  | (fail) e where "sessions_store st sid = None" "create_session env (create_calls st) = Inl e"
  | (created) s where "sessions_store st sid = None" "create_session env (create_calls st) = Inr s"
  by (cases "sessions_store st sid"; cases "create_session env (create_calls st)") auto

subsection \<open>Collecting the text of a run\<close>

lemma foldl_part_texts:
  "foldl (\<lambda>acc p. case part_text p of None \<Rightarrow> acc | Some t \<Rightarrow> if t = [] then acc else acc @ t) acc ps
     = acc @ concat (concat (map (\<lambda>p. case part_text p of None \<Rightarrow> [] | Some t \<Rightarrow> [t]) ps))"
  by (induction ps arbitrary: acc) (auto split: option.splits)

lemma text_fragments_Cons:
  "text_fragments (ev # evs) = text_fragments [ev] @ text_fragments evs"
  by (simp add: text_fragments_def)

lemma event_text_Inr:
  "event_text ev acc = Inr r \<Longrightarrow> r = acc @ concat (text_fragments [ev])"
  by (auto simp: event_text_def text_fragments_def foldl_part_texts split: option.splits)

lemma run_events_Inr:
  "run_events evs flt acc = Inr r \<Longrightarrow> flt = None \<and> r = acc @ concat (text_fragments evs)"
proof (induction evs arbitrary: acc)
  case Nil
  then show ?case by (simp add: text_fragments_def split: option.splits)
next
  case (Cons ev evs)
  from Cons.prems obtain acc' where a: "event_text ev acc = Inr acc'"
    and r: "run_events evs flt acc' = Inr r"
    by (auto split: sum.splits)
  from Cons.IH [OF r] event_text_Inr [OF a] show ?case
    by (simp add: text_fragments_Cons [of ev evs])
qed

lemma run_events_fault: "\<exists>m. run_events evs (Some e) acc = Inl m"
  by (induction evs arbitrary: acc) (auto split: sum.splits)

lemma send_Inr:
  assumes "send_message_to_agent env sid msg hint st = (Inr text, st')"
  obtains session st1 where
    "get_or_create_session env sid st = (Inr session, st1)"
    "runner_log st' = (user_id session, adk_id session, user_content (mensaje_completo env msg hint)) # runner_log st1"
    "fault (runner_run env (runner_log st')) = None"
    "text = (let c = concat (text_fragments (emitted (runner_run env (runner_log st'))))
             in strip (if strip c = [] then fallback_text env else c))"
    "sessions_store st' = sessions_store st1"
    "sessions_metadata st' =
       (case sessions_metadata st1 sid of
          None \<Rightarrow> sessions_metadata st1
        | Some m \<Rightarrow> (sessions_metadata st1)(sid \<mapsto>
            m\<lparr>message_count := message_count m + 1, last_activity := now env (clock_reads st1)\<rparr>))"
    "uuid_calls st' = uuid_calls st1" "create_calls st' = create_calls st1"
    "history_calls st' = history_calls st1"
proof -
  from assms obtain session st1 where g: "get_or_create_session env sid st = (Inr session, st1)"
    by (auto simp: send_message_to_agent_def split: prod.splits sum.splits)
  let ?st2 = "st1\<lparr>runner_log := (user_id session, adk_id session, user_content (mensaje_completo env msg hint)) # runner_log st1\<rparr>"
  let ?o = "runner_run env (runner_log ?st2)"
  from assms g obtain r where r: "run_events (emitted ?o) (fault ?o) [] = Inr r"
    by (auto simp: send_message_to_agent_def Let_def split: sum.splits)
  from run_events_Inr [OF r] have f: "fault ?o = None" and rr: "r = concat (text_fragments (emitted ?o))"
    by simp_all
  have strip_blank: "strip ([]::string) = []" by (simp add: strip_def)
  from assms g r have
    t: "text = strip (if r = [] \<or> strip r = [] then fallback_text env else r)"
    and s: "st' = (case sessions_metadata ?st2 sid of
                     None \<Rightarrow> ?st2
                   | Some m \<Rightarrow> ?st2\<lparr>sessions_metadata := (sessions_metadata ?st2)(sid \<mapsto>
                        m\<lparr>message_count := message_count m + 1, last_activity := now env (clock_reads ?st2)\<rparr>),
                        clock_reads := Suc (clock_reads ?st2)\<rparr>)"
    by (auto simp: send_message_to_agent_def Let_def now_isoformat_def split: option.splits)
  from s have l: "runner_log st' = runner_log ?st2" by (simp split: option.splits)
  show thesis
  proof (rule that [OF g])
    show "runner_log st' = (user_id session, adk_id session, user_content (mensaje_completo env msg hint)) # runner_log st1"
      using l by simp
    show "fault (runner_run env (runner_log st')) = None" using f l by simp
    show "text = (let c = concat (text_fragments (emitted (runner_run env (runner_log st'))))
             in strip (if strip c = [] then fallback_text env else c))"
    proof -
      have "(r = [] \<or> strip r = []) = (strip r = [])" using strip_blank by auto
      with t have "text = strip (if strip r = [] then fallback_text env else r)" by simp
      then show ?thesis unfolding Let_def rr l by simp
    qed
    show "sessions_store st' = sessions_store st1" using s by (simp split: option.splits)
    show "sessions_metadata st' =
       (case sessions_metadata st1 sid of
          None \<Rightarrow> sessions_metadata st1
        | Some m \<Rightarrow> (sessions_metadata st1)(sid \<mapsto>
            m\<lparr>message_count := message_count m + 1, last_activity := now env (clock_reads st1)\<rparr>))"
      using s by (simp split: option.splits)
    show "uuid_calls st' = uuid_calls st1" using s by (simp split: option.splits)
    show "create_calls st' = create_calls st1" using s by (simp split: option.splits)
    show "history_calls st' = history_calls st1" using s by (simp split: option.splits)
  qed
qed

lemma send_Inl:
  assumes "send_message_to_agent env sid msg hint st = (Inl e, st')"
  obtains (session_fault) "get_or_create_session env sid st = (Inl e, st')"
  | (execution_fault) session st1 m where
      "get_or_create_session env sid st = (Inr session, st1)"
      "e = RuntimeError (''Error al ejecutar el agente: '' @ m)"
      "st' = st1\<lparr>runner_log := (user_id session, adk_id session, user_content (mensaje_completo env msg hint)) # runner_log st1\<rparr>"
      "run_events (emitted (runner_run env (runner_log st'))) (fault (runner_run env (runner_log st'))) [] = Inl m"
  using assms
  by (auto simp: send_message_to_agent_def Let_def split: prod.splits sum.splits)

subsection \<open>The chat handler on a message that passed its checks\<close>

lemma chat_send_Inl:
  assumes "strip (message request) \<noteq> []" "int (length (message request)) \<le> MAX_MESSAGE_LENGTH env"
    and "send_message_to_agent env (chat_session_id env request st) (message request)
           (agent_id request) (chat_send_state request st) = (Inl e, st3)"
  shows "chat_with_agent env request st =
           (Inl (HTTPException 500 (''Error al generar respuesta: '' @ str_exn e)), st3)"
proof -
  have ne: "message request \<noteq> []" using assms(1) by (auto simp: strip_def)
  show ?thesis
  proof (cases "session_id request")
    case None
    then show ?thesis using assms ne
      by (simp add: chat_with_agent_def chat_session_id_def chat_send_state_def new_uuid_def
          now_isoformat_def)
  next
    case (Some s)
    then show ?thesis using assms ne
      by (cases "s = []")
         (simp_all add: chat_with_agent_def chat_session_id_def chat_send_state_def new_uuid_def
          now_isoformat_def)
  qed
qed

lemma chat_send_Inr:
  assumes "strip (message request) \<noteq> []" "int (length (message request)) \<le> MAX_MESSAGE_LENGTH env"
    and "send_message_to_agent env (chat_session_id env request st) (message request)
           (agent_id request) (chat_send_state request st) = (Inr text, st3)"
    and "text \<noteq> []"
  shows "chat_with_agent env request st =
           (Inr \<lparr>response = slice_to (MAX_RESPONSE_LENGTH env) text,
                 agent_name = (case agent_id request of
                            None \<Rightarrow> root_agent_name env
                          | Some a \<Rightarrow>
                             if a = [] then root_agent_name env
                             else (case AGENTS_METADATA env a of
                                     None \<Rightarrow> root_agent_name env
                                   | Some agent_meta \<Rightarrow> nombre agent_meta)),
                 response_session_id = chat_session_id env request st,
                 timestamp = now env (clock_reads st3)\<rparr>,
            st3\<lparr>clock_reads := Suc (clock_reads st3)\<rparr>)"
proof -
  have ne: "message request \<noteq> []" using assms(1) by (auto simp: strip_def)
  show ?thesis
  proof (cases "session_id request")
    case None
    then show ?thesis using assms ne
      by (simp add: chat_with_agent_def chat_session_id_def chat_send_state_def new_uuid_def
          now_isoformat_def)
  next
    case (Some s)
    then show ?thesis using assms ne
      by (cases "s = []")
         (simp_all add: chat_with_agent_def chat_session_id_def chat_send_state_def new_uuid_def
          now_isoformat_def)
  qed
qed

subsection \<open>Evaluating the concrete inputs\<close>

lemmas ex_defs = ex_env_def ex_state_def ex_event_def ex_pasto_def ex_turn_def ex_request_def
  ex_env_no_history_def

lemmas model_defs = chat_with_agent_def send_message_to_agent_def get_or_create_session_def
  now_isoformat_def new_uuid_def strip_def isspace_def slice_to_def event_text_def
  mensaje_completo_def fallback_text_def user_content_def o_acute_def i_acute_def apostrophe_def

lemma ex_state1_eq:
  "ex_state1 = \<lparr>sessions_store = [''s1'' \<mapsto> \<lparr>adk_id = [], user_id = ''default_user''\<rparr>],
      sessions_metadata = [''s1'' \<mapsto> \<lparr>created_at = ''t'', last_activity = ''tttt'', message_count = 1\<rparr>],
      clock_reads = 6, uuid_calls = 0, create_calls = 1,
      runner_log = [(''default_user'', [], user_content ''[Dirigido a Gente Pasto]: hola'')],
      history_calls = 0\<rparr>"
  by (simp add: ex_state1_def ex_defs model_defs)

subsection \<open>Store and metadata go together\<close>

lemma goc_doms:
  assumes "dom (sessions_store st) = dom (sessions_metadata st)"
  shows "dom (sessions_store (snd (get_or_create_session env sid st)))
           = dom (sessions_metadata (snd (get_or_create_session env sid st)))"
proof (cases rule: goc_cases [where st=st and sid=sid and env=env])
  case (existing s)
  with assms obtain m where "sessions_metadata st sid = Some m" by blast
  with existing assms show ?thesis by (auto simp: goc_existing)
next
  case (fail e)
  with assms show ?thesis by (simp add: goc_fail)
next
  case (created s)
  with assms show ?thesis by (simp add: goc_created)
qed

lemma send_doms:
  assumes "dom (sessions_store st) = dom (sessions_metadata st)"
  shows "dom (sessions_store (snd (send_message_to_agent env sid msg hint st)))
           = dom (sessions_metadata (snd (send_message_to_agent env sid msg hint st)))"
proof -
  obtain r st1 where g: "get_or_create_session env sid st = (r, st1)" by (cases "get_or_create_session env sid st")
  from goc_doms [OF assms, of env sid] g
  have d: "dom (sessions_store st1) = dom (sessions_metadata st1)" by simp
  show ?thesis
  proof (cases r)
    case (Inl e)
    with g d show ?thesis by (simp add: send_message_to_agent_def)
  next
    case (Inr session)
    with g d show ?thesis
      by (auto simp: send_message_to_agent_def Let_def now_isoformat_def
          split: sum.splits option.splits)
  qed
qed

lemma send_text_not_empty:
  assumes "send_message_to_agent env sid msg hint st = (Inr answer, st')"
  shows "answer \<noteq> []"
proof -
  let ?c = "concat (text_fragments (emitted (runner_run env (runner_log st'))))"
  from assms have "answer = strip (if strip ?c = [] then fallback_text env else ?c)"
    by (rule send_Inr) (simp add: Let_def)
  then show ?thesis by (simp add: fallback_strip fallback_not_empty)
qed

lemma chat_doms:
  assumes "dom (sessions_store st) = dom (sessions_metadata st)"
  shows "dom (sessions_store (snd (chat_with_agent env request st)))
           = dom (sessions_metadata (snd (chat_with_agent env request st)))"
proof (cases "strip (message request) = [] \<or> MAX_MESSAGE_LENGTH env < int (length (message request))")
  case True
  then show ?thesis using assms by (auto simp: chat_with_agent_def)
next
  case False
  then have v: "strip (message request) \<noteq> []" "int (length (message request)) \<le> MAX_MESSAGE_LENGTH env"
    by auto
  let ?s = "send_message_to_agent env (chat_session_id env request st) (message request)
             (agent_id request) (chat_send_state request st)"
  have "dom (sessions_store (chat_send_state request st)) = dom (sessions_metadata (chat_send_state request st))"
    using assms by (simp add: chat_send_state_def split: option.splits)
  from send_doms [OF this, of env "chat_session_id env request st" "message request" "agent_id request"]
  have d: "dom (sessions_store (snd ?s)) = dom (sessions_metadata (snd ?s))" .
  obtain r st3 where s: "?s = (r, st3)" by (cases ?s)
  show ?thesis
  proof (cases r)
    case (Inl e)
    with chat_send_Inl [OF v, of st e st3] s d show ?thesis by simp
  next
    case (Inr answer)
    with s have "answer \<noteq> []" using send_text_not_empty by blast
    with chat_send_Inr [OF v, of st answer st3] s d Inr show ?thesis by simp
  qed
qed

lemma chat_agent_doms:
  assumes "dom (sessions_store st) = dom (sessions_metadata st)"
  shows "dom (sessions_store (snd (chat_agent env aid request st)))
           = dom (sessions_metadata (snd (chat_agent env aid request st)))"
proof -
  let ?st1 = "st\<lparr>uuid_calls := Suc (uuid_calls st)\<rparr>"
  let ?s = "send_message_to_agent env (uuid4 env (uuid_calls st)) (simple_message request)
              (Some aid) ?st1"
  have "dom (sessions_store ?st1) = dom (sessions_metadata ?st1)" using assms by simp
  from send_doms [OF this, of env "uuid4 env (uuid_calls st)" "simple_message request" "Some aid"]
  have d: "dom (sessions_store (snd ?s)) = dom (sessions_metadata (snd ?s))" .
  obtain r st2 where s: "?s = (r, st2)" by (cases ?s)
  with d show ?thesis
    by (cases r) (simp_all add: chat_agent_def new_uuid_def split: option.splits)
qed

lemma history_maps:
  "sessions_store (snd (get_session_history env sid st)) = sessions_store st
   \<and> sessions_metadata (snd (get_session_history env sid st)) = sessions_metadata st"
  by (simp add: get_session_history_def Let_def split: option.splits sum.splits)

lemma delete_maps:
  "sessions_store (snd (delete_session sid st)) = (sessions_store st)(sid := None)
   \<and> sessions_metadata (snd (delete_session sid st)) = (sessions_metadata st)(sid := None)"
  by (auto simp: delete_session_def Let_def fun_upd_idem)

lemma reachable_doms:
  "reachable env st \<Longrightarrow> dom (sessions_store st) = dom (sessions_metadata st)"
proof (induction rule: reachable.induct)
  case (start st)
  then show ?case by simp
next
  case (chat st request)
  then show ?case by (simp add: chat_doms)
next
  case (agent st aid simple_request)
  then show ?case by (simp add: chat_agent_doms)
next
  case (history st sid)
  then show ?case by (simp add: history_maps)
next
  case (delete st sid)
  then have "dom ((sessions_store st)(sid := None)) = dom ((sessions_metadata st)(sid := None))"
    by simp
  with delete_maps [of sid st] show ?case by (simp only:)
qed

subsection \<open>A completed dispatch\<close>

lemmas ex_defs2 = ex_defs ex_env_blank_def ex_env_fault_def

lemma send_answer:
  assumes "send_message_to_agent env sid msg hint st = (Inr answer, st')"
  shows "answer = aggregated_response env st'"
  using assms unfolding aggregated_response_def by (rule send_Inr)

lemma chat_Inr:
  assumes "chat_with_agent env request st = (Inr resp, st')"
  obtains answer st3 where
    "strip (message request) \<noteq> []" "int (length (message request)) \<le> MAX_MESSAGE_LENGTH env"
    "send_message_to_agent env (chat_session_id env request st) (message request)
       (agent_id request) (chat_send_state request st) = (Inr answer, st3)"
    "answer \<noteq> []"
    "resp = \<lparr>response = slice_to (MAX_RESPONSE_LENGTH env) answer,
             agent_name = (case agent_id request of
                            None \<Rightarrow> root_agent_name env
                          | Some a \<Rightarrow>
                             if a = [] then root_agent_name env
                             else (case AGENTS_METADATA env a of
                                     None \<Rightarrow> root_agent_name env
                                   | Some agent_meta \<Rightarrow> nombre agent_meta)),
             response_session_id = chat_session_id env request st,
             timestamp = now env (clock_reads st3)\<rparr>"
    "st' = st3\<lparr>clock_reads := Suc (clock_reads st3)\<rparr>"
proof -
  have v: "strip (message request) \<noteq> []" "int (length (message request)) \<le> MAX_MESSAGE_LENGTH env"
    using assms by (auto simp: chat_with_agent_def split: if_splits)
  let ?s = "send_message_to_agent env (chat_session_id env request st) (message request)
             (agent_id request) (chat_send_state request st)"
  obtain r st3 where s: "?s = (r, st3)" by (cases ?s)
  show thesis
  proof (cases r)
    case (Inl e)
    with chat_send_Inl [OF v, of st e st3] s assms show ?thesis by simp
  next
    case (Inr answer)
    with s have ne: "answer \<noteq> []" using send_text_not_empty by blast
    from chat_send_Inr [OF v, of st answer st3] s Inr ne assms
    show ?thesis by (intro that [of answer st3] v) auto
  qed
qed

subsection \<open>The calls made to the runner\<close>

lemma goc_log: "runner_log (snd (get_or_create_session env sid st)) = runner_log st"
  by (cases rule: goc_cases [where st=st and sid=sid and env=env])
     (simp_all add: goc_existing goc_fail goc_created split: option.splits)


lemma chat_invalid:
  assumes "strip (message request) = [] \<or> MAX_MESSAGE_LENGTH env < int (length (message request))"
  shows "\<exists>detail. chat_with_agent env request st = (Inl (HTTPException 400 detail), st)"
  using assms by (auto simp: chat_with_agent_def)

lemma chat_send_state_log: "runner_log (chat_send_state request st) = runner_log st"
  by (simp add: chat_send_state_def split: option.splits)





subsection \<open>What obtaining a session does to the metadata\<close>

lemma goc_metadata:
  assumes "get_or_create_session env sid st = (r, st1)"
    and "dom (sessions_store st) = dom (sessions_metadata st)"
  shows "(\<forall>k md. sessions_metadata st k = Some md \<longrightarrow>
            (\<exists>md'. sessions_metadata st1 k = Some md' \<and> message_count md' = message_count md
                   \<and> created_at md' = created_at md))
         \<and> (\<forall>k md'. sessions_metadata st k = None \<longrightarrow> sessions_metadata st1 k = Some md' \<longrightarrow>
               k = sid \<and> message_count md' = 0)"
proof (cases rule: goc_cases [where st=st and sid=sid and env=env])
  case (existing s)
  with assms show ?thesis by (auto simp: goc_existing split: option.splits if_splits)
next
  case (fail e)
  with assms show ?thesis by (auto simp: goc_fail)
next
  case (created s)
  with assms(2) have "sessions_metadata st sid = None" by blast
  with created assms(1) show ?thesis by (auto simp: goc_created split: if_splits)
qed

subsection \<open>A dispatch whose run raises, evaluated\<close>

lemma ex_state1_fault: "snd (chat_with_agent ex_env_fault ex_request ex_state) = ex_state1"
  by (simp add: ex_state1_eq ex_defs2 model_defs)

lemma ex_fault_dispatch:
  "chat_with_agent ex_env_fault ex_request ex_state1
     = (Inl (HTTPException 500 ''Error al generar respuesta: Error al ejecutar el agente: boom''),
        ex_state1\<lparr>sessions_metadata := [''s1'' \<mapsto>
                      \<lparr>created_at = ''t'', last_activity = ''ttttttt'', message_count = 1\<rparr>],
                   clock_reads := 8,
                   runner_log := (''default_user'', [], user_content ''[Dirigido a Gente Pasto]: hola'')
                                 # runner_log ex_state1\<rparr>)"
  by (simp add: ex_state1_eq ex_defs2 model_defs eval_nat_numeral)

subsection \<open>A per-agent handler and the chat handler, side by side\<close>

lemma same_but_clock_count:
  "same_but_clock s1 s2 \<Longrightarrow>
   map_option message_count (sessions_metadata s1 k) = map_option message_count (sessions_metadata s2 k)"
  by (auto simp: same_but_clock_def fun_eq_iff)

lemma same_but_clockI:
  assumes "sessions_store s1 = sessions_store s2"
    and "\<And>k. map_option message_count (sessions_metadata s1 k)
              = map_option message_count (sessions_metadata s2 k)"
    and "uuid_calls s1 = uuid_calls s2" "create_calls s1 = create_calls s2"
    and "runner_log s1 = runner_log s2" "history_calls s1 = history_calls s2"
  shows "same_but_clock s1 s2"
  using assms by (auto simp: same_but_clock_def fun_eq_iff)

lemma same_but_clockD:
  assumes "same_but_clock s1 s2"
  shows "sessions_store s1 = sessions_store s2" "uuid_calls s1 = uuid_calls s2"
    "create_calls s1 = create_calls s2" "runner_log s1 = runner_log s2"
    "history_calls s1 = history_calls s2"
  using assms by (auto simp: same_but_clock_def)

lemma goc_same_but_clock:
  assumes "same_but_clock s1 s2"
  shows "fst (get_or_create_session env sid s1) = fst (get_or_create_session env sid s2)
         \<and> same_but_clock (snd (get_or_create_session env sid s1))
                           (snd (get_or_create_session env sid s2))"
proof -
  note d = same_but_clockD [OF assms]
  note c = same_but_clock_count [OF assms]
  show ?thesis
  proof (cases rule: goc_cases [where st=s1 and sid=sid and env=env])
    case (existing s)
    then have e2: "sessions_store s2 sid = Some s" using d by simp
    show ?thesis
    proof (cases "sessions_metadata s1 sid")
      case None
      with c [of sid] have "sessions_metadata s2 sid = None" by simp
      with None existing e2 assms show ?thesis by (simp add: goc_existing)
    next
      case (Some m1)
      with c [of sid] obtain m2 where m2: "sessions_metadata s2 sid = Some m2"
        "message_count m1 = message_count m2" by (cases "sessions_metadata s2 sid") auto
      show ?thesis
        unfolding goc_existing [OF existing] goc_existing [OF e2]
        using Some m2 d c by (auto intro!: same_but_clockI)
    qed
  next
    case (fail e)
    then have f2: "sessions_store s2 sid = None" "create_session env (create_calls s2) = Inl e"
      using d by simp_all
    show ?thesis unfolding goc_fail [OF fail] goc_fail [OF f2]
      using d c by (auto intro!: same_but_clockI)
  next
    case (created s)
    then have c2: "sessions_store s2 sid = None" "create_session env (create_calls s2) = Inr s"
      using d by simp_all
    show ?thesis unfolding goc_created [OF created] goc_created [OF c2]
      using d c by (auto intro!: same_but_clockI)
  qed
qed

lemma send_same_but_clock:
  assumes "same_but_clock s1 s2"
  shows "fst (send_message_to_agent env sid msg hint s1) = fst (send_message_to_agent env sid msg hint s2)
         \<and> same_but_clock (snd (send_message_to_agent env sid msg hint s1))
                           (snd (send_message_to_agent env sid msg hint s2))"
proof -
  obtain r t1 where g1: "get_or_create_session env sid s1 = (r, t1)"
    by (cases "get_or_create_session env sid s1")
  obtain r' t2 where g2: "get_or_create_session env sid s2 = (r', t2)"
    by (cases "get_or_create_session env sid s2")
  from goc_same_but_clock [OF assms, of env sid] g1 g2
  have rr: "r' = r" and t: "same_but_clock t1 t2" by simp_all
  note d = same_but_clockD [OF t]
  note c = same_but_clock_count [OF t]
  show ?thesis
  proof (cases r)
    case (Inl e)
    with g1 g2 rr t show ?thesis by (simp add: send_message_to_agent_def)
  next
    case (Inr session)
    let ?call = "(user_id session, adk_id session, user_content (mensaje_completo env msg hint))"
    let ?o = "runner_run env (?call # runner_log t1)"
    show ?thesis
    proof (cases "run_events (emitted ?o) (fault ?o) []")
      case (Inl e)
      with Inr g1 g2 rr d c show ?thesis
        by (auto simp: send_message_to_agent_def Let_def intro!: same_but_clockI)
    next
      case run: (Inr respuesta_texto)
      show ?thesis
      proof (cases "sessions_metadata t1 sid")
        case None
        with c [of sid] have "sessions_metadata t2 sid = None" by simp
        with None run Inr g1 g2 rr d c show ?thesis
          by (auto simp: send_message_to_agent_def Let_def intro!: same_but_clockI)
      next
        case (Some m1)
        with c [of sid] obtain m2 where m2: "sessions_metadata t2 sid = Some m2"
          "message_count m1 = message_count m2" by (cases "sessions_metadata t2 sid") auto
        with Some run Inr g1 g2 rr d c show ?thesis
          by (auto simp: send_message_to_agent_def Let_def now_isoformat_def intro!: same_but_clockI)
      qed
    qed
  qed
qed

lemma agent_endpoints_chat_agent:
  assumes "(aid, handler) \<in> set agent_endpoints"
  shows "handler env = chat_agent env aid" "aid \<noteq> []"
  using assms
  by (auto simp: agent_endpoints_def chat_gente_montana_def chat_gente_pasto_def
      chat_gente_intuitiva_def chat_gente_interpretativa_def chat_gente_bosque_def
      chat_gente_sonora_def chat_gente_horaculo_def)

lemma chat_agent_Inl:
  assumes "send_message_to_agent env (uuid4 env (uuid_calls st)) (simple_message request) (Some aid)
             (st\<lparr>uuid_calls := Suc (uuid_calls st)\<rparr>) = (Inl e, st2)"
  shows "chat_agent env aid request st = (Inl (HTTPException 500 (''Error: '' @ str_exn e)), st2)"
  using assms by (simp add: chat_agent_def new_uuid_def)

lemma chat_agent_Inr:
  assumes "send_message_to_agent env (uuid4 env (uuid_calls st)) (simple_message request) (Some aid)
             (st\<lparr>uuid_calls := Suc (uuid_calls st)\<rparr>) = (Inr answer, st2)"
    and "AGENTS_METADATA env aid = Some meta"
  shows "chat_agent env aid request st =
           (Inr \<lparr>agent_response = answer, agent_response_name = nombre meta,
                 agent_response_id = aid\<rparr>, st2)"
  using assms by (simp add: chat_agent_def new_uuid_def)

lemma ex_fault_dispatch_new:
  "chat_with_agent ex_env_fault ex_request_new ex_state1
     = (Inl (HTTPException 500 ''Error al generar respuesta: Error al ejecutar el agente: boom''),
        ex_state1\<lparr>sessions_store := (sessions_store ex_state1)
                      (''s2'' \<mapsto> \<lparr>adk_id = ''a'', user_id = ''default_user''\<rparr>),
                   sessions_metadata := (sessions_metadata ex_state1)(''s2'' \<mapsto>
                      \<lparr>created_at = ''ttttttt'', last_activity = ''ttttttttt'', message_count = 0\<rparr>),
                   clock_reads := 10, create_calls := 2,
                   runner_log := (''default_user'', ''a'', user_content ''hola'')
                                 # runner_log ex_state1\<rparr>)"
  by (simp add: ex_state1_eq ex_request_new_def ex_defs2 model_defs eval_nat_numeral)

text \<open>
  On a message that passes the two checks of \<open>chat_with_agent\<close>, a per-agent handler whose
  agent is in the registry and \<open>chat_with_agent\<close> for a request without session id and with
  that agent id go the same way: both answer 500 from the same exception, or both
  complete with the same agent name, the handler with the text \<open>send_message_to_agent\<close>
  returned and \<open>chat_with_agent\<close> with its cut, in states that agree on everything but the
  clock.
\<close>

lemma agent_endpoint_agrees_on_checked_messages:
  assumes "(aid, handler) \<in> set agent_endpoints"
    and "AGENTS_METADATA env aid = Some meta"
    and "strip msg \<noteq> []" and "int (length msg) \<le> MAX_MESSAGE_LENGTH env"
  shows "\<exists>r1 s1 r2 s2.
      handler env \<lparr>simple_message = msg\<rparr> st = (r1, s1)
    \<and> chat_with_agent env \<lparr>message = msg, session_id = None, agent_id = Some aid\<rparr> st = (r2, s2)
    \<and> same_but_clock s1 s2
    \<and> ((\<exists>a c. r1 = Inr a \<and> r2 = Inr c
             \<and> agent_response a = aggregated_response env s1
             \<and> response c = slice_to (MAX_RESPONSE_LENGTH env) (agent_response a)
             \<and> agent_response_name a = nombre meta \<and> agent_name c = nombre meta
             \<and> agent_response_id a = aid
             \<and> response_session_id c = uuid4 env (uuid_calls st))
         \<or> (\<exists>e. r1 = Inl (HTTPException 500 (''Error: '' @ e))
               \<and> r2 = Inl (HTTPException 500 (''Error al generar respuesta: '' @ e))))"
proof -
  let ?req = "\<lparr>message = msg, session_id = None, agent_id = Some aid\<rparr>"
  let ?sreq = "\<lparr>simple_message = msg\<rparr>"
  let ?sid = "uuid4 env (uuid_calls st)"
  let ?t1 = "st\<lparr>uuid_calls := Suc (uuid_calls st)\<rparr>"
  let ?t2 = "st\<lparr>uuid_calls := Suc (uuid_calls st), clock_reads := Suc (clock_reads st)\<rparr>"
  note h = agent_endpoints_chat_agent(1) [OF assms(1), of env]
  note ne_aid = agent_endpoints_chat_agent(2) [OF assms(1)]
  have v: "strip (message ?req) \<noteq> []" "int (length (message ?req)) \<le> MAX_MESSAGE_LENGTH env"
    using assms(3,4) by simp_all
  have cs: "chat_session_id env ?req st = ?sid" "chat_send_state ?req st = ?t2"
    by (simp_all add: chat_session_id_def chat_send_state_def)
  have "same_but_clock ?t1 ?t2" by (simp add: same_but_clock_def)
  note sb = send_same_but_clock [OF this, of env ?sid msg "Some aid"]
  obtain r0 u1 where s1: "send_message_to_agent env ?sid msg (Some aid) ?t1 = (r0, u1)"
    by (cases "send_message_to_agent env ?sid msg (Some aid) ?t1")
  obtain r0' u2 where s2: "send_message_to_agent env ?sid msg (Some aid) ?t2 = (r0', u2)"
    by (cases "send_message_to_agent env ?sid msg (Some aid) ?t2")
  from sb s1 s2 have rr: "r0' = r0" and u: "same_but_clock u1 u2" by simp_all
  show ?thesis
  proof (cases r0)
    case (Inl e)
    from chat_agent_Inl [of env st ?sreq aid e u1] s1 Inl
    have 1: "handler env ?sreq st = (Inl (HTTPException 500 (''Error: '' @ str_exn e)), u1)"
      by (simp add: h)
    from chat_send_Inl [OF v, of st e u2] s2 rr Inl cs
    have 2: "chat_with_agent env ?req st
               = (Inl (HTTPException 500 (''Error al generar respuesta: '' @ str_exn e)), u2)"
      by simp
    from 1 2 u show ?thesis by blast
  next
    case (Inr answer)
    with s1 have s1': "send_message_to_agent env ?sid msg (Some aid) ?t1 = (Inr answer, u1)" by simp
    then have ne: "answer \<noteq> []" by (rule send_text_not_empty)
    from chat_agent_Inr [of env st ?sreq aid answer u1 meta] s1' assms(2)
    have 1: "handler env ?sreq st =
               (Inr \<lparr>agent_response = answer, agent_response_name = nombre meta,
                     agent_response_id = aid\<rparr>, u1)"
      by (simp add: h)
    from chat_send_Inr [OF v, of st answer u2] s2 rr Inr cs ne assms(2) ne_aid
    have 2: "chat_with_agent env ?req st =
               (Inr \<lparr>response = slice_to (MAX_RESPONSE_LENGTH env) answer,
                     agent_name = nombre meta, response_session_id = ?sid,
                     timestamp = now env (clock_reads u2)\<rparr>,
                u2\<lparr>clock_reads := Suc (clock_reads u2)\<rparr>)"
      by simp
    have 3: "same_but_clock u1 (u2\<lparr>clock_reads := Suc (clock_reads u2)\<rparr>)"
      using u by (simp add: same_but_clock_def)
    have 4: "answer = aggregated_response env u1" using s1' by (rule send_answer)
    from 1 2 3 4 show ?thesis by simp
  qed
qed

section \<open>Claims\<close>

text \<open>
  C4. A blank message and a message longer than the configured maximum are rejected by
  \<open>chat_with_agent\<close> with status 400, and the state is exactly the state before the request:
  no session is created, no metadata changes, the message count of every session is what
  it was.
\<close>

theorem rejected_message_changes_nothing:
  assumes "message request = [] \<or> strip (message request) = []
           \<or> MAX_MESSAGE_LENGTH env < int (length (message request))"
  shows "\<exists>detail. chat_with_agent env request st = (Inl (HTTPException 400 detail), st)"
  using assms by (auto simp: chat_with_agent_def)

theorem rejected_message_changes_nothing_witness:
  "(\<exists>detail. chat_with_agent ex_env \<lparr>message = ''  '', session_id = Some ''s1'', agent_id = None\<rparr> ex_state
       = (Inl (HTTPException 400 detail), ex_state))
   \<and> (\<exists>detail. chat_with_agent ex_env \<lparr>message = ''holaholahola'', session_id = Some ''s1'', agent_id = None\<rparr> ex_state
       = (Inl (HTTPException 400 detail), ex_state))"
proof -
  have blank: "strip (message \<lparr>message = ''  '', session_id = Some ''s1'', agent_id = None\<rparr>) = []"
    by (simp add: strip_def isspace_def)
  have long: "MAX_MESSAGE_LENGTH ex_env
              < int (length (message \<lparr>message = ''holaholahola'', session_id = Some ''s1'', agent_id = None\<rparr>))"
    by (simp add: ex_env_def)
  show ?thesis
    using rejected_message_changes_nothing [of "\<lparr>message = ''  '', session_id = Some ''s1'', agent_id = None\<rparr>" ex_env ex_state]
      rejected_message_changes_nothing [of "\<lparr>message = ''holaholahola'', session_id = Some ''s1'', agent_id = None\<rparr>" ex_env ex_state]
      blank long by blast
qed

text \<open>
  C5. \<open>get_session_history\<close> always answers with a history, never with an error. For a
  session id that is not in the store, and for a session whose history retrieval raises,
  the answer is the empty one: no messages and a message count of 0.
\<close>

theorem history_never_fails:
  "(\<exists>r. fst (get_session_history env sid st) = Inr r)
   \<and> (sessions_store st sid = None \<longrightarrow>
        fst (get_session_history env sid st) =
          Inr \<lparr>history_session_id = sid, messages = [], history_created_at = [],
               history_message_count = 0\<rparr>)
   \<and> (\<forall>session e. sessions_store st sid = Some session \<longrightarrow>
          get_history env (history_calls st) (user_id session) (adk_id session) = Inl e \<longrightarrow>
          fst (get_session_history env sid st) =
            Inr \<lparr>history_session_id = sid, messages = [], history_created_at = [],
                 history_message_count = 0\<rparr>)"
  by (auto simp: get_session_history_def empty_history_def Let_def split: option.splits sum.splits)

theorem history_never_fails_witness:
  "sessions_store ex_state ''s9'' = None
   \<and> fst (get_session_history ex_env ''s9'' ex_state)
        = Inr \<lparr>history_session_id = ''s9'', messages = [], history_created_at = [],
               history_message_count = 0\<rparr>
   \<and> sessions_store ex_state1 ''s1'' = Some \<lparr>adk_id = [], user_id = ''default_user''\<rparr>
   \<and> get_history ex_env_no_history (history_calls ex_state1) ''default_user'' []
        = Inl ''no attribute get_history''
   \<and> fst (get_session_history ex_env_no_history ''s1'' ex_state1)
        = Inr \<lparr>history_session_id = ''s1'', messages = [], history_created_at = [],
               history_message_count = 0\<rparr>"
proof -
  have a: "sessions_store ex_state ''s9'' = None" by (simp add: ex_state_def)
  have b: "sessions_store ex_state1 ''s1'' = Some \<lparr>adk_id = [], user_id = ''default_user''\<rparr>"
    by (simp add: ex_state1_eq)
  have c: "get_history ex_env_no_history (history_calls ex_state1)
             (user_id \<lparr>adk_id = [], user_id = ''default_user''\<rparr>)
             (adk_id \<lparr>adk_id = [], user_id = ''default_user''\<rparr>) = Inl ''no attribute get_history''"
    by (simp add: ex_defs)
  from history_never_fails [of ex_env "''s9''" ex_state] a
  have 1: "fst (get_session_history ex_env ''s9'' ex_state)
        = Inr \<lparr>history_session_id = ''s9'', messages = [], history_created_at = [],
               history_message_count = 0\<rparr>" by blast
  from history_never_fails [of ex_env_no_history "''s1''" ex_state1] b c
  have 2: "fst (get_session_history ex_env_no_history ''s1'' ex_state1)
        = Inr \<lparr>history_session_id = ''s1'', messages = [], history_created_at = [],
               history_message_count = 0\<rparr>" by blast
  from a b c 1 2 show ?thesis by simp
qed

text \<open>
  C6, as the code has it. The message count in the answer of \<open>get_session_history\<close> is the
  number of messages in that answer, for every session id. It is not the message count
  kept in the metadata of the session: after one completed dispatch the stored count is
  1, while a history of one turn gives 2 and a failed retrieval gives 0.
\<close>

theorem history_count_is_length:
  "\<exists>r. fst (get_session_history env sid st) = Inr r
       \<and> history_message_count r = int (length (messages r))"
  by (auto simp: get_session_history_def empty_history_def Let_def split: option.splits sum.splits)

theorem history_count_counterexample:
  "sessions_metadata ex_state1 ''s1''
     = Some \<lparr>created_at = ''t'', last_activity = ''tttt'', message_count = 1\<rparr>
   \<and> fst (get_session_history ex_env ''s1'' ex_state1)
     = Inr \<lparr>history_session_id = ''s1'',
            messages = [\<lparr>msg_role = ''user'', msg_content = Some ''hola'', msg_timestamp = ''tttt''\<rparr>,
                        \<lparr>msg_role = ''assistant'', msg_content = Some ''buenas'', msg_timestamp = ''tttt''\<rparr>],
            history_created_at = ''t'', history_message_count = 2\<rparr>
   \<and> fst (get_session_history ex_env_no_history ''s1'' ex_state1)
     = Inr \<lparr>history_session_id = ''s1'', messages = [], history_created_at = [],
            history_message_count = 0\<rparr>"
  by (simp add: ex_state1_eq get_session_history_def ex_defs turn_messages_def first_part_text_def
      empty_history_def Let_def)

text \<open>
  C3. In every state the server can reach, the session store and the metadata have the
  same session ids. From such a state \<open>get_or_create_session\<close> either fails, exactly when
  the id is new and \<open>create_session\<close> raises, and then leaves both dictionaries as they
  were, or returns the session with the id present in both; \<open>delete_session\<close> removes the
  id from both and touches no other id.
\<close>

theorem store_and_metadata_together:
  assumes "reachable env st"
  shows "dom (sessions_store st) = dom (sessions_metadata st)
    \<and> (\<forall>sid. (case get_or_create_session env sid st of
                 (Inl e, st') \<Rightarrow>
                    sessions_store st' = sessions_store st
                    \<and> sessions_metadata st' = sessions_metadata st
               | (Inr session, st') \<Rightarrow>
                    sessions_store st' sid = Some session
                    \<and> sessions_metadata st' sid \<noteq> None
                    \<and> dom (sessions_store st') = insert sid (dom (sessions_store st))
                    \<and> dom (sessions_metadata st') = insert sid (dom (sessions_metadata st)))
              \<and> ((\<exists>e. fst (get_or_create_session env sid st) = Inl e)
                   = (sessions_store st sid = None
                      \<and> (\<exists>m. create_session env (create_calls st) = Inl m))))
    \<and> (\<forall>sid. sessions_store (snd (delete_session sid st)) = (sessions_store st)(sid := None)
              \<and> sessions_metadata (snd (delete_session sid st)) = (sessions_metadata st)(sid := None))"
proof -
  from assms have d: "dom (sessions_store st) = dom (sessions_metadata st)"
    by (rule reachable_doms)
  have g: "(case get_or_create_session env sid st of
              (Inl e, st') \<Rightarrow>
                 sessions_store st' = sessions_store st
                 \<and> sessions_metadata st' = sessions_metadata st
            | (Inr session, st') \<Rightarrow>
                 sessions_store st' sid = Some session
                 \<and> sessions_metadata st' sid \<noteq> None
                 \<and> dom (sessions_store st') = insert sid (dom (sessions_store st))
                 \<and> dom (sessions_metadata st') = insert sid (dom (sessions_metadata st)))
           \<and> ((\<exists>e. fst (get_or_create_session env sid st) = Inl e)
                = (sessions_store st sid = None
                   \<and> (\<exists>m. create_session env (create_calls st) = Inl m)))" for sid
  proof (cases rule: goc_cases [where st=st and sid=sid and env=env])
    case (existing s)
    with d obtain m where "sessions_metadata st sid = Some m" by blast
    with existing d show ?thesis by (auto simp: goc_existing)
  next
    case (fail e)
    then show ?thesis by (simp add: goc_fail)
  next
    case (created s)
    with d have "sessions_metadata st sid = None" by blast
    with created show ?thesis by (simp add: goc_created)
  qed
  from d g delete_maps show ?thesis by blast
qed

theorem store_and_metadata_together_witness:
  "reachable ex_env ex_state1
   \<and> dom (sessions_store ex_state1) = dom (sessions_metadata ex_state1)
   \<and> sessions_store ex_state1 ''s1'' = Some \<lparr>adk_id = [], user_id = ''default_user''\<rparr>
   \<and> sessions_store (snd (delete_session ''s1'' ex_state1)) ''s1'' = None
   \<and> sessions_metadata (snd (delete_session ''s1'' ex_state1)) ''s1'' = None"
proof -
  have "reachable ex_env ex_state" by (rule reachable.start) (simp_all add: ex_state_def)
  then have r: "reachable ex_env ex_state1" unfolding ex_state1_def by (rule reachable.chat)
  note t = store_and_metadata_together [OF r]
  from t have d: "dom (sessions_store ex_state1) = dom (sessions_metadata ex_state1)" by blast
  from t have "sessions_store (snd (delete_session ''s1'' ex_state1))
                 = (sessions_store ex_state1)(''s1'' := None)"
    and "sessions_metadata (snd (delete_session ''s1'' ex_state1))
                 = (sessions_metadata ex_state1)(''s1'' := None)" by blast+
  then have e: "sessions_store (snd (delete_session ''s1'' ex_state1)) ''s1'' = None"
    "sessions_metadata (snd (delete_session ''s1'' ex_state1)) ''s1'' = None" by simp_all
  have s: "sessions_store ex_state1 ''s1'' = Some \<lparr>adk_id = [], user_id = ''default_user''\<rparr>"
    by (simp add: ex_state1_eq)
  from r d s e show ?thesis by (intro conjI)
qed

text \<open>
  C10. The text \<open>send_message_to_agent\<close> returns is the concatenation of the text fragments
  of the run, or the fallback text when that concatenation is empty or only whitespace,
  with the surrounding whitespace stripped. It is not empty and neither starts nor ends
  with whitespace, so it differs from the concatenation whenever the concatenation starts
  or ends with whitespace.
\<close>

theorem aggregated_text_is_stripped:
  assumes "send_message_to_agent env sid msg hint st = (Inr answer, st')"
  shows "(let c = concat (text_fragments (emitted (runner_run env (runner_log st'))))
          in answer = strip (if strip c = [] then fallback_text env else c)
             \<and> ((isspace (hd c) \<or> isspace (last c)) \<and> strip c \<noteq> [] \<longrightarrow> answer \<noteq> c))
         \<and> answer \<noteq> [] \<and> \<not> isspace (hd answer) \<and> \<not> isspace (last answer)"
proof -
  let ?c = "concat (text_fragments (emitted (runner_run env (runner_log st'))))"
  from assms have a: "answer = strip (if strip ?c = [] then fallback_text env else ?c)"
    by (rule send_Inr) (simp add: Let_def)
  have ne: "answer \<noteq> []" using assms by (rule send_text_not_empty)
  have "strip answer = answer"
    using a by (metis fallback_strip strip_id strip_hd strip_last ne)
  with ne have h: "\<not> isspace (hd answer)" and l: "\<not> isspace (last answer)"
    using strip_hd [of answer] strip_last [of answer] by simp_all
  have d: "answer \<noteq> ?c" if "isspace (hd ?c) \<or> isspace (last ?c)"
    using that h l by auto
  have "answer = strip (if strip ?c = [] then fallback_text env else ?c)
        \<and> ((isspace (hd ?c) \<or> isspace (last ?c)) \<and> strip ?c \<noteq> [] \<longrightarrow> answer \<noteq> ?c)"
    using a d by blast
  then have "let c = ?c
             in answer = strip (if strip c = [] then fallback_text env else c)
                \<and> ((isspace (hd c) \<or> isspace (last c)) \<and> strip c \<noteq> [] \<longrightarrow> answer \<noteq> c)"
    unfolding Let_def .
  with ne h l show ?thesis by blast
qed

theorem aggregated_text_is_stripped_witness:
  "send_message_to_agent ex_env ''s1'' ''hola'' None ex_state
     = (Inr ''buenas tardes'', snd (send_message_to_agent ex_env ''s1'' ''hola'' None ex_state))
   \<and> concat (text_fragments (emitted (runner_run ex_env
         (runner_log (snd (send_message_to_agent ex_env ''s1'' ''hola'' None ex_state))))))
       = '' buenas tardes ''
   \<and> isspace (hd '' buenas tardes '') \<and> strip '' buenas tardes '' \<noteq> []
   \<and> ''buenas tardes'' \<noteq> '' buenas tardes ''
   \<and> ''buenas tardes'' \<noteq> []
   \<and> \<not> isspace (hd ''buenas tardes'') \<and> \<not> isspace (last ''buenas tardes'')"
proof -
  let ?st' = "snd (send_message_to_agent ex_env ''s1'' ''hola'' None ex_state)"
  have "fst (send_message_to_agent ex_env ''s1'' ''hola'' None ex_state) = Inr ''buenas tardes''"
    by (simp add: ex_defs model_defs)
  then have h: "send_message_to_agent ex_env ''s1'' ''hola'' None ex_state = (Inr ''buenas tardes'', ?st')"
    by (simp add: prod_eq_iff)
  have c: "concat (text_fragments (emitted (runner_run ex_env (runner_log ?st')))) = '' buenas tardes ''"
    by (simp add: ex_defs text_fragments_def)
  have w: "isspace (hd '' buenas tardes '')" "strip '' buenas tardes '' \<noteq> []"
    by (simp_all add: strip_def isspace_def)
  note t = aggregated_text_is_stripped [OF h, unfolded Let_def c]
  from t w have d: "''buenas tardes'' \<noteq> '' buenas tardes ''" by blast
  from t have e: "''buenas tardes'' \<noteq> []" "\<not> isspace (hd ''buenas tardes'')"
    "\<not> isspace (last ''buenas tardes'')" by blast+
  from h c w d e show ?thesis by (intro conjI)
qed



text \<open>
  C9. With a maximum response length that is not negative, a completed dispatch of
  \<open>chat_with_agent\<close> whose aggregated response is longer than the maximum returns exactly
  the first maximum-response-length characters of the aggregated response.
\<close>

theorem long_response_is_truncated:
  assumes "0 \<le> MAX_RESPONSE_LENGTH env"
    and "chat_with_agent env request st = (Inr resp, st')"
    and "MAX_RESPONSE_LENGTH env < int (length (aggregated_response env st'))"
  shows "response resp = take (nat (MAX_RESPONSE_LENGTH env)) (aggregated_response env st')
    \<and> int (length (response resp)) = MAX_RESPONSE_LENGTH env"
proof -
  from assms(2) obtain answer st3 where
    s: "send_message_to_agent env (chat_session_id env request st) (message request)
         (agent_id request) (chat_send_state request st) = (Inr answer, st3)"
    and r: "response resp = slice_to (MAX_RESPONSE_LENGTH env) answer"
    and l: "runner_log st' = runner_log st3"
    by (rule chat_Inr) simp
  from send_answer [OF s] l have "answer = aggregated_response env st'"
    by (simp add: aggregated_response_def)
  with r assms(1,3) show ?thesis by (simp add: slice_to_def)
qed

theorem long_response_is_truncated_witness:
  "0 \<le> MAX_RESPONSE_LENGTH ex_env
   \<and> chat_with_agent ex_env ex_request ex_state
       = (Inr \<lparr>response = ''buen'', agent_name = ''Gente Pasto'', response_session_id = ''s1'',
               timestamp = ''ttttt''\<rparr>, ex_state1)
   \<and> aggregated_response ex_env ex_state1 = ''buenas tardes''
   \<and> MAX_RESPONSE_LENGTH ex_env < int (length ''buenas tardes'')
   \<and> ''buen'' = take (nat (MAX_RESPONSE_LENGTH ex_env)) ''buenas tardes''
   \<and> int (length ''buen'') = MAX_RESPONSE_LENGTH ex_env"
proof -
  let ?resp = "\<lparr>response = ''buen'', agent_name = ''Gente Pasto'', response_session_id = ''s1'',
               timestamp = ''ttttt''\<rparr>"
  have m: "0 \<le> MAX_RESPONSE_LENGTH ex_env" by (simp add: ex_defs)
  have "fst (chat_with_agent ex_env ex_request ex_state) = Inr ?resp"
    by (simp add: ex_defs model_defs)
  then have h: "chat_with_agent ex_env ex_request ex_state = (Inr ?resp, ex_state1)"
    unfolding ex_state1_def by (simp add: prod_eq_iff)
  have a: "aggregated_response ex_env ex_state1 = ''buenas tardes''"
    by (simp add: aggregated_response_def ex_state1_eq ex_defs text_fragments_def strip_def
        isspace_def)
  have g: "MAX_RESPONSE_LENGTH ex_env < int (length (aggregated_response ex_env ex_state1))"
    unfolding a by (simp add: ex_defs)
  have e: "MAX_RESPONSE_LENGTH ex_env = 4" by (simp add: ex_defs)
  from long_response_is_truncated [OF m h g]
  have "response ?resp = take (nat (MAX_RESPONSE_LENGTH ex_env)) (aggregated_response ex_env ex_state1)
    \<and> int (length (response ?resp)) = MAX_RESPONSE_LENGTH ex_env" .
  then have k: "''buen'' = take (nat (MAX_RESPONSE_LENGTH ex_env)) ''buenas tardes''
    \<and> int (length ''buen'') = MAX_RESPONSE_LENGTH ex_env"
    unfolding a e by simp
  have g': "MAX_RESPONSE_LENGTH ex_env < int (length ''buenas tardes'')" using g unfolding a .
  from m h a g' k show ?thesis by blast
qed



text \<open>
  C1, as the code has it. In a reachable state, a dispatch of \<open>chat_with_agent\<close> that called
  the runner and whose run raised answers 500 with the execution error, and it leaves the
  message count and the creation time of every session that had metadata as they were; a
  session that appears in the metadata through this dispatch is the session of the
  request, with message count 0. The metadata is touched all the same: the last
  activity of the session is stamped by \<open>get_or_create_session\<close> before the run.
\<close>

theorem fault_leaves_message_count:
  assumes "reachable env st"
    and "chat_with_agent env request st = (r, st')"
    and "runner_log st' \<noteq> runner_log st"
    and "fault (runner_run env (runner_log st')) = Some m"
  shows "(\<exists>detail. r = Inl (HTTPException 500
            (''Error al generar respuesta: Error al ejecutar el agente: '' @ detail)))
    \<and> (\<forall>k md. sessions_metadata st k = Some md \<longrightarrow>
          (\<exists>md'. sessions_metadata st' k = Some md' \<and> message_count md' = message_count md
                 \<and> created_at md' = created_at md))
    \<and> (\<forall>k md'. sessions_metadata st k = None \<longrightarrow> sessions_metadata st' k = Some md' \<longrightarrow>
          k = chat_session_id env request st \<and> message_count md' = 0)"
proof -
  have v: "strip (message request) \<noteq> []" "int (length (message request)) \<le> MAX_MESSAGE_LENGTH env"
  proof -
    have False if "strip (message request) = [] \<or> MAX_MESSAGE_LENGTH env < int (length (message request))"
      using chat_invalid [OF that, of st] assms(2,3) by auto
    then show "strip (message request) \<noteq> []"
      and "int (length (message request)) \<le> MAX_MESSAGE_LENGTH env" by force+
  qed
  let ?sid = "chat_session_id env request st"
  let ?st0 = "chat_send_state request st"
  let ?s = "send_message_to_agent env ?sid (message request) (agent_id request) ?st0"
  obtain r0 st3 where s: "?s = (r0, st3)" by (cases ?s)
  show ?thesis
  proof (cases r0)
    case (Inr answer)
    with s have s': "?s = (Inr answer, st3)" by simp
    then have ne: "answer \<noteq> []" by (rule send_text_not_empty)
    from s' have "fault (runner_run env (runner_log st3)) = None" by (rule send_Inr)
    moreover from chat_send_Inr [OF v s' ne] assms(2) have "runner_log st' = runner_log st3"
      by auto
    ultimately show ?thesis using assms(4) by simp
  next
    case (Inl e)
    with s have s': "?s = (Inl e, st3)" by simp
    from chat_send_Inl [OF v s'] assms(2)
    have r: "r = Inl (HTTPException 500 (''Error al generar respuesta: '' @ str_exn e))"
      and st: "st' = st3" by auto
    from s' show ?thesis
    proof (cases rule: send_Inl)
      case session_fault
      with goc_log [of env ?sid ?st0] st assms(3) show ?thesis
        by (simp add: chat_send_state_log)
    next
      case (execution_fault session st1 m')
      have md: "sessions_metadata st' = sessions_metadata st1"
        using execution_fault(3) st by simp
      have md0: "sessions_metadata ?st0 = sessions_metadata st"
        by (simp add: chat_send_state_def split: option.splits)
      have "dom (sessions_store ?st0) = dom (sessions_metadata ?st0)"
        using reachable_doms [OF assms(1)] by (simp add: chat_send_state_def split: option.splits)
      from goc_metadata [OF execution_fault(1) this] md md0
      have "(\<forall>k md. sessions_metadata st k = Some md \<longrightarrow>
          (\<exists>md'. sessions_metadata st' k = Some md' \<and> message_count md' = message_count md
                 \<and> created_at md' = created_at md))
        \<and> (\<forall>k md'. sessions_metadata st k = None \<longrightarrow> sessions_metadata st' k = Some md' \<longrightarrow>
          k = chat_session_id env request st \<and> message_count md' = 0)" by simp
      moreover have "r = Inl (HTTPException 500
            (''Error al generar respuesta: Error al ejecutar el agente: '' @ m'))"
        using r execution_fault(2) by simp
      ultimately show ?thesis by blast
    qed
  qed
qed

theorem fault_touches_metadata_counterexample:
  "fst (chat_with_agent ex_env_fault ex_request ex_state1)
     = Inl (HTTPException 500 ''Error al generar respuesta: Error al ejecutar el agente: boom'')
   \<and> sessions_metadata ex_state1 ''s1''
       = Some \<lparr>created_at = ''t'', last_activity = ''tttt'', message_count = 1\<rparr>
   \<and> sessions_metadata (snd (chat_with_agent ex_env_fault ex_request ex_state1)) ''s1''
       = Some \<lparr>created_at = ''t'', last_activity = ''ttttttt'', message_count = 1\<rparr>
   \<and> sessions_metadata (snd (chat_with_agent ex_env_fault ex_request ex_state1))
       \<noteq> sessions_metadata ex_state1"
proof -
  have a: "sessions_metadata ex_state1 ''s1''
       = Some \<lparr>created_at = ''t'', last_activity = ''tttt'', message_count = 1\<rparr>"
    by (simp add: ex_state1_eq)
  have b: "sessions_metadata (snd (chat_with_agent ex_env_fault ex_request ex_state1)) ''s1''
       = Some \<lparr>created_at = ''t'', last_activity = ''ttttttt'', message_count = 1\<rparr>"
    by (simp add: ex_fault_dispatch)
  have "sessions_metadata (snd (chat_with_agent ex_env_fault ex_request ex_state1)) ''s1''
        \<noteq> sessions_metadata ex_state1 ''s1''"
    unfolding a b by simp
  then have c: "sessions_metadata (snd (chat_with_agent ex_env_fault ex_request ex_state1))
       \<noteq> sessions_metadata ex_state1" by metis
  have d: "fst (chat_with_agent ex_env_fault ex_request ex_state1)
     = Inl (HTTPException 500 ''Error al generar respuesta: Error al ejecutar el agente: boom'')"
    by (simp add: ex_fault_dispatch)
  from a b c d show ?thesis by (intro conjI)
qed

theorem fault_leaves_message_count_witness:
  "reachable ex_env_fault ex_state1
   \<and> runner_log (snd (chat_with_agent ex_env_fault ex_request ex_state1)) \<noteq> runner_log ex_state1
   \<and> fault (runner_run ex_env_fault
         (runner_log (snd (chat_with_agent ex_env_fault ex_request ex_state1)))) = Some ''boom''
   \<and> (\<exists>detail. fst (chat_with_agent ex_env_fault ex_request ex_state1)
         = Inl (HTTPException 500
             (''Error al generar respuesta: Error al ejecutar el agente: '' @ detail)))
   \<and> sessions_metadata ex_state1 ''s1''
       = Some \<lparr>created_at = ''t'', last_activity = ''tttt'', message_count = 1\<rparr>
   \<and> (\<exists>md'. sessions_metadata (snd (chat_with_agent ex_env_fault ex_request ex_state1)) ''s1''
               = Some md'
             \<and> message_count md' = 1 \<and> created_at md' = ''t'')
   \<and> runner_log (snd (chat_with_agent ex_env_fault ex_request_new ex_state1)) \<noteq> runner_log ex_state1
   \<and> fault (runner_run ex_env_fault
         (runner_log (snd (chat_with_agent ex_env_fault ex_request_new ex_state1)))) = Some ''boom''
   \<and> sessions_metadata ex_state1 ''s2'' = None
   \<and> sessions_metadata (snd (chat_with_agent ex_env_fault ex_request_new ex_state1)) ''s2''
       = Some \<lparr>created_at = ''ttttttt'', last_activity = ''ttttttttt'', message_count = 0\<rparr>
   \<and> ''s2'' = chat_session_id ex_env_fault ex_request_new ex_state1"
proof -
  let ?r = "fst (chat_with_agent ex_env_fault ex_request ex_state1)"
  let ?st' = "snd (chat_with_agent ex_env_fault ex_request ex_state1)"
  have "reachable ex_env_fault ex_state" by (rule reachable.start) (simp_all add: ex_state_def)
  then have "reachable ex_env_fault (snd (chat_with_agent ex_env_fault ex_request ex_state))"
    by (rule reachable.chat)
  then have r: "reachable ex_env_fault ex_state1" by (simp only: ex_state1_fault)
  have h: "chat_with_agent ex_env_fault ex_request ex_state1 = (?r, ?st')" by simp
  have l: "runner_log ?st' \<noteq> runner_log ex_state1" by (simp add: ex_fault_dispatch)
  have "runner_log ?st' = (''default_user'', [], user_content ''[Dirigido a Gente Pasto]: hola'')
                                 # runner_log ex_state1"
    by (simp add: ex_fault_dispatch)
  then have f: "fault (runner_run ex_env_fault (runner_log ?st')) = Some ''boom''"
    by (simp add: ex_state1_eq ex_defs2)
  have a: "sessions_metadata ex_state1 ''s1''
       = Some \<lparr>created_at = ''t'', last_activity = ''tttt'', message_count = 1\<rparr>"
    by (simp add: ex_state1_eq)
  note t = fault_leaves_message_count [OF r h l f]
  from t have 1: "\<exists>detail. ?r = Inl (HTTPException 500
             (''Error al generar respuesta: Error al ejecutar el agente: '' @ detail))" by blast
  from t a have "\<exists>md'. sessions_metadata ?st' ''s1'' = Some md'
      \<and> message_count md' = message_count \<lparr>created_at = ''t'', last_activity = ''tttt'', message_count = 1\<rparr>
      \<and> created_at md' = created_at \<lparr>created_at = ''t'', last_activity = ''tttt'', message_count = 1\<rparr>"
    by blast
  then have 2: "\<exists>md'. sessions_metadata ?st' ''s1'' = Some md'
             \<and> message_count md' = 1 \<and> created_at md' = ''t''" by simp
  let ?rn = "fst (chat_with_agent ex_env_fault ex_request_new ex_state1)"
  let ?stn = "snd (chat_with_agent ex_env_fault ex_request_new ex_state1)"
  have hn: "chat_with_agent ex_env_fault ex_request_new ex_state1 = (?rn, ?stn)" by simp
  have ln: "runner_log ?stn \<noteq> runner_log ex_state1" by (simp add: ex_fault_dispatch_new)
  have "runner_log ?stn = (''default_user'', ''a'', user_content ''hola'') # runner_log ex_state1"
    by (simp add: ex_fault_dispatch_new)
  then have fn: "fault (runner_run ex_env_fault (runner_log ?stn)) = Some ''boom''"
    by (simp add: ex_state1_eq ex_defs2)
  have an: "sessions_metadata ex_state1 ''s2'' = None" by (simp add: ex_state1_eq)
  have bn: "sessions_metadata ?stn ''s2''
       = Some \<lparr>created_at = ''ttttttt'', last_activity = ''ttttttttt'', message_count = 0\<rparr>"
    by (simp add: ex_fault_dispatch_new)
  from fault_leaves_message_count [OF r hn ln fn] an bn
  have cn: "''s2'' = chat_session_id ex_env_fault ex_request_new ex_state1" by blast
  from r l f 1 a 2 ln fn an bn cn show ?thesis by (intro conjI)
qed

text \<open>
  C2. Each per-agent handler is to behave as \<open>chat_with_agent\<close> does for a new session id,
  the same message and the handler's agent id, with the rejection of an empty message,
  the rejection of a message over the maximum length and the truncation of the response.
  The handlers have none of the three. With messages of at most 8 characters and
  responses of at most 4, \<open>chat_gente_pasto\<close> answers a blank message and a message of 12
  characters, both of which \<open>chat_with_agent\<close> refuses with 400, and it returns the response
  of 13 characters whole where \<open>chat_with_agent\<close> returns its first 4.
\<close>

theorem agent_endpoint_skips_checks:
  "fst (chat_gente_pasto ex_env \<lparr>simple_message = ''  ''\<rparr> ex_state)
     = Inr \<lparr>agent_response = ''buenas tardes'', agent_response_name = ''Gente Pasto'',
            agent_response_id = ''gente_pasto''\<rparr>
   \<and> fst (chat_with_agent ex_env (ex_request_pasto ''  '') ex_state)
     = Inl (HTTPException 400 (''El mensaje no puede estar vac'' @ i_acute @ ''o''))
   \<and> fst (chat_gente_pasto ex_env \<lparr>simple_message = ''holaholahola''\<rparr> ex_state)
     = Inr \<lparr>agent_response = ''buenas tardes'', agent_response_name = ''Gente Pasto'',
            agent_response_id = ''gente_pasto''\<rparr>
   \<and> fst (chat_with_agent ex_env (ex_request_pasto ''holaholahola'') ex_state)
     = Inl (HTTPException 400 (''El mensaje no puede exceder '' @ str_int 8 @ '' caracteres''))
   \<and> fst (chat_gente_pasto ex_env ex_simple_request ex_state)
     = Inr \<lparr>agent_response = ''buenas tardes'', agent_response_name = ''Gente Pasto'',
            agent_response_id = ''gente_pasto''\<rparr>
   \<and> fst (chat_with_agent ex_env (ex_request_pasto ''hola'') ex_state)
     = Inr \<lparr>response = ''buen'', agent_name = ''Gente Pasto'', response_session_id = ''uuid'',
            timestamp = ''ttttt''\<rparr>"
proof -
  have 1: "fst (chat_gente_pasto ex_env \<lparr>simple_message = ''  ''\<rparr> ex_state)
     = Inr \<lparr>agent_response = ''buenas tardes'', agent_response_name = ''Gente Pasto'',
            agent_response_id = ''gente_pasto''\<rparr>"
    by (simp add: chat_gente_pasto_def chat_agent_def ex_defs model_defs)
  have 2: "fst (chat_with_agent ex_env (ex_request_pasto ''  '') ex_state)
     = Inl (HTTPException 400 (''El mensaje no puede estar vac'' @ i_acute @ ''o''))"
    by (simp add: ex_request_pasto_def chat_with_agent_def strip_def isspace_def)
  have 3: "fst (chat_gente_pasto ex_env \<lparr>simple_message = ''holaholahola''\<rparr> ex_state)
     = Inr \<lparr>agent_response = ''buenas tardes'', agent_response_name = ''Gente Pasto'',
            agent_response_id = ''gente_pasto''\<rparr>"
    by (simp add: chat_gente_pasto_def chat_agent_def ex_defs model_defs)
  have 4: "fst (chat_with_agent ex_env (ex_request_pasto ''holaholahola'') ex_state)
     = Inl (HTTPException 400 (''El mensaje no puede exceder '' @ str_int 8 @ '' caracteres''))"
    by (simp add: ex_request_pasto_def chat_with_agent_def strip_def isspace_def ex_env_def)
  have 5: "fst (chat_gente_pasto ex_env ex_simple_request ex_state)
     = Inr \<lparr>agent_response = ''buenas tardes'', agent_response_name = ''Gente Pasto'',
            agent_response_id = ''gente_pasto''\<rparr>"
    by (simp add: chat_gente_pasto_def chat_agent_def ex_simple_request_def ex_defs model_defs)
  have 6: "fst (chat_with_agent ex_env (ex_request_pasto ''hola'') ex_state)
     = Inr \<lparr>response = ''buen'', agent_name = ''Gente Pasto'', response_session_id = ''uuid'',
            timestamp = ''ttttt''\<rparr>"
    by (simp add: ex_request_pasto_def ex_defs model_defs)
  from 1 2 3 4 5 6 show ?thesis by (intro conjI)
qed

end
